theory Spec2Isabelle
  imports Complex_Main "HOL-Library.AList" "HOL-Library.Multiset"
begin

text \<open>
  A model of the Dyson-MCP server: the factory state and its construction from a live
  frame, the bottleneck, power and logistics analyzers, the live-feed client, the save
  parser, and the tool \<open>load_save_analysis\<close>; then the properties of the
  specification, proved or refuted on the model.
\<close>

section \<open>Python values used by the program\<close>

text \<open>
  Conventions of the embedding.
  \<^item> A Python \<open>float\<close> is modelled by the \<open>real\<close> that is the double's value. The
    sums and the difference that the power analyzer accumulates, \<open>round\<close>, and the
    timer of the polling loop are rounded to the nearest double (\<open>fl\<close>), as the
    processor does; the other float operations are written as the exact operations on
    reals. NaN and the infinities are not values of \<open>real\<close>: a result beyond the
    largest double is outside the model.
  \<^item> A \<open>dict\<close> is an association list in insertion order; storing under a key that is
    already present replaces the value in place (\<open>AList.update\<close>), as Python does.
  \<^item> A raised exception is the \<open>Inl\<close> branch of a sum type.
  \<^item> An f-string is kept as its template: the literal pieces and the interpolated
    values, each with its format specification (\<open>fpart\<close>).
  \<^item> A \<open>datetime\<close> is its POSIX timestamp; \<open>isoformat()\<close> is the library's
    rendering of it and is not expanded.
  \<^item> Python names with a leading underscore lose it (\<open>_analyze_assembler\<close> is
    \<open>analyze_assembler\<close>); \<open>analyze\<close> of class \<open>C\<close> is \<open>C_analyze\<close>. A
    parameter whose name is also a field of a record gets a suffix (\<open>planet_id_arg\<close>).
\<close>

datatype py_error =
    ValueError string
  | FileNotFoundError string
  | ConnectionError string
  | TimeoutError string
  | Exception string

text \<open>\<open>str(e)\<close> of an exception built from one message.\<close>

fun str_of_error :: "py_error \<Rightarrow> string" where
  "str_of_error (ValueError m) = m"
| "str_of_error (FileNotFoundError m) = m"
| "str_of_error (ConnectionError m) = m"
| "str_of_error (TimeoutError m) = m"
| "str_of_error (Exception m) = m"

fun is_FileNotFoundError :: "py_error \<Rightarrow> bool" where
  "is_FileNotFoundError (FileNotFoundError m) = True"
| "is_FileNotFoundError e = False"

datatype fpart =
    Lit string    \<comment> \<open>literal text of the template\<close>
  | F1 real       \<comment> \<open>\<open>{x:.1f}\<close>\<close>
  | D int         \<comment> \<open>\<open>{n}\<close> of an integer\<close>
  | S string      \<comment> \<open>\<open>{s}\<close> of a string\<close>

type_synonym fstring = "fpart list"

type_synonym datetime = real

subsection \<open>Doubles\<close>

text \<open>Rounding to the nearest integer, a tie going to the even neighbour.\<close>

definition round_half_even :: "real \<Rightarrow> int" where
  "round_half_even x =
     (let f = \<lfloor>x\<rfloor>; d = x - of_int f
      in if d < 1 / 2 then f
         else if 1 / 2 < d then f + 1
         else if even f then f else f + 1)"

text \<open>
  A double (IEEE 754 binary64) is a multiple of \<open>2 ^ (e - 52)\<close>, where \<open>e\<close> is its
  exponent: \<open>2 ^ e\<close> is at most its magnitude, which is below \<open>2 ^ (e + 1)\<close>, and
  \<open>e\<close> is -1022 for the subnormal numbers. \<open>float_exponent\<close> finds the exponent of a
  magnitude by stepping up or down from 0, and \<open>fl\<close> rounds a real to the nearest
  double, a tie going to the even multiple.
\<close>

definition pow2 :: "int \<Rightarrow> real" where
  "pow2 e = (if 0 \<le> e then 2 ^ nat e else 1 / 2 ^ nat (- e))"

fun exp_up :: "nat \<Rightarrow> real \<Rightarrow> int \<Rightarrow> int" where
  "exp_up 0 a e = e"
| "exp_up (Suc n) a e = (if pow2 (e + 1) \<le> a then exp_up n a (e + 1) else e)"

fun exp_down :: "nat \<Rightarrow> real \<Rightarrow> int \<Rightarrow> int" where
  "exp_down 0 a e = e"
| "exp_down (Suc n) a e = (if a < pow2 e then exp_down n a (e - 1) else e)"

definition float_exponent :: "real \<Rightarrow> int" where
  "float_exponent a = (if 1 \<le> a then exp_up 1023 a 0 else exp_down 1022 a 0)"

definition fl :: "real \<Rightarrow> real" where
  "fl x = (let u = pow2 (float_exponent \<bar>x\<bar> - 52) in of_int (round_half_even (x / u)) * u)"

subsection \<open>\<open>round(x, n)\<close>\<close>

text \<open>
  \<open>round\<close> of a float to \<open>n\<close> decimals is the double nearest to the decimal number
  nearest to the float's exact value, a tie going to the even last digit.
\<close>

definition decimal_round :: "real \<Rightarrow> nat \<Rightarrow> real" where
  "decimal_round x n = of_int (round_half_even (x * 10 ^ n)) / 10 ^ n"

definition py_round :: "real \<Rightarrow> nat \<Rightarrow> real" where
  "py_round x n = fl (decimal_round x n)"

subsection \<open>\<open>int(s)\<close> of a string\<close>







section \<open>models/factory\_state.py\<close>

record ItemMetrics =
  item_name :: string
  production_rate :: real
  consumption_rate :: real
  current_storage :: int
  net_rate :: real


record AssemblerMetrics =
  assembler_id :: int
  recipe_id :: int
  production_rate :: real
  theoretical_max :: real
  input_starved :: bool
  output_blocked :: bool
  efficiency :: real

definition mk_AssemblerMetrics ::
  "int \<Rightarrow> int \<Rightarrow> real \<Rightarrow> real \<Rightarrow> bool \<Rightarrow> bool \<Rightarrow> AssemblerMetrics" where
  "mk_AssemblerMetrics aid rid pr tmax starved blocked =
     \<lparr>assembler_id = aid, recipe_id = rid, production_rate = pr, theoretical_max = tmax,
      input_starved = starved, output_blocked = blocked,
      efficiency = (if tmax > 0 then pr / tmax * 100 else 0)\<rparr>"

record PowerMetrics =
  generation_mw :: real
  consumption_mw :: real
  accumulator_charge_percent :: real
  surplus_mw :: real

definition mk_PowerMetrics :: "real \<Rightarrow> real \<Rightarrow> real \<Rightarrow> PowerMetrics" where
  "mk_PowerMetrics g c acc =
     \<lparr>generation_mw = g, consumption_mw = c, accumulator_charge_percent = acc,
      surplus_mw = g - c\<rparr>"

record BeltMetrics =
  belt_id :: int
  item_type :: string
  throughput :: real
  max_throughput :: real
  saturation_percent :: real

definition mk_BeltMetrics :: "int \<Rightarrow> string \<Rightarrow> real \<Rightarrow> real \<Rightarrow> BeltMetrics" where
  "mk_BeltMetrics bid it tp mx =
     \<lparr>belt_id = bid, item_type = it, throughput = tp, max_throughput = mx,
      saturation_percent = (if mx > 0 then tp / mx * 100 else 0)\<rparr>"

record PlanetState =
  planet_id :: int
  planet_name :: string
  production :: "(string \<times> ItemMetrics) list"
  assemblers :: "AssemblerMetrics list"
  power :: "PowerMetrics option"
  belts :: "BeltMetrics list"

text \<open>\<open>PlanetState(planet_id=p)\<close>: every other field takes its default.\<close>

definition new_PlanetState :: "int \<Rightarrow> PlanetState" where
  "new_PlanetState p =
     \<lparr>planet_id = p, planet_name = [], production = [], assemblers = [],
      power = None, belts = []\<rparr>"

record FactoryState =
  timestamp :: datetime
  planets :: "(int \<times> PlanetState) list"

text \<open>
  A live frame as \<open>from_realtime_data\<close> reads it. Every field of the frame may be
  absent (\<open>None\<close>); a field that is present has the JSON type the code expects. The
  planet keys are arbitrary strings. \<open>"Planets"\<close> and \<open>"Production"\<close> keep the order
  of the decoded JSON.
\<close>

record raw_power =
  GenerationMW :: "real option"
  ConsumptionMW :: "real option"
  AccumulatorPercent :: "real option"

record raw_production =
  ItemName :: "string option"
  ProductionRate :: "real option"
  ConsumptionRate :: "real option"
  Storage :: "int option"

record raw_planet =
  Power :: "raw_power option"
  Production :: "raw_production list option"


text \<open>\<open>d.get(key, default)\<close> on an optional field.\<close>

definition get_or :: "'a option \<Rightarrow> 'a \<Rightarrow> 'a" where
  "get_or v d = (case v of None \<Rightarrow> d | Some x \<Rightarrow> x)"








text \<open>\<open>from_save_data\<close> ignores its argument; \<open>now\<close> is the clock's reading.\<close>

definition from_save_data :: "datetime \<Rightarrow> FactoryState" where
  "from_save_data now = \<lparr>timestamp = now, planets = []\<rparr>"

section \<open>tools/bottleneck\_analyzer.py\<close>

record Bottleneck =
  item_name :: string
  bottleneck_type :: string
  severity :: real
  affected_throughput :: real
  root_cause :: string
  recommendation :: string

definition analyze_assembler ::
  "AssemblerMetrics \<Rightarrow> PlanetState \<Rightarrow> string option \<Rightarrow> Bottleneck option" where
  "analyze_assembler assembler planet target_item =
     (if input_starved assembler then
        Some \<lparr>item_name = ''unknown'',
              bottleneck_type = ''input_starvation'',
              severity = 100 - efficiency assembler,
              affected_throughput =
                theoretical_max assembler - AssemblerMetrics.production_rate assembler,
              root_cause = ''Insufficient input materials'',
              recommendation = ''Increase upstream production or add more input belts''\<rparr>
      else if output_blocked assembler then
        Some \<lparr>item_name = ''unknown'',
              bottleneck_type = ''output_blocked'',
              severity = 100 - efficiency assembler,
              affected_throughput =
                theoretical_max assembler - AssemblerMetrics.production_rate assembler,
              root_cause = ''Output buffer full, downstream consumption insufficient'',
              recommendation = ''Add more output belts or increase downstream consumption''\<rparr>
      else None)"

definition build_critical_path :: "Bottleneck list \<Rightarrow> string list" where
  "build_critical_path bottlenecks = map Bottleneck.item_name (take 5 bottlenecks)"

text \<open>The inner loop, over \<open>planet.assemblers\<close>; \<open>bottlenecks\<close> is the list being built.\<close>

fun assemblers_loop ::
  "AssemblerMetrics list \<Rightarrow> PlanetState \<Rightarrow> string option \<Rightarrow> Bottleneck list \<Rightarrow> Bottleneck list" where
  "assemblers_loop [] planet target_item bottlenecks = bottlenecks"
| "assemblers_loop (assembler # rest) planet target_item bottlenecks =
     assemblers_loop rest planet target_item
       (if efficiency assembler < 90 then
          (case analyze_assembler assembler planet target_item of
             Some bottleneck \<Rightarrow> bottlenecks @ [bottleneck]
           | None \<Rightarrow> bottlenecks)
        else bottlenecks)"

text \<open>\<open>planet_id is not None and pid != planet_id\<close>: the planet is skipped.\<close>

definition skipped :: "int option \<Rightarrow> int \<Rightarrow> bool" where
  "skipped planet_id_arg pid = (case planet_id_arg of None \<Rightarrow> False | Some p \<Rightarrow> pid \<noteq> p)"

text \<open>The outer loop, over \<open>factory_state.planets.items()\<close>, with its two variables.\<close>

fun bottleneck_planets_loop ::
  "(int \<times> PlanetState) list \<Rightarrow> int option \<Rightarrow> string option \<Rightarrow>
   Bottleneck list \<times> nat \<Rightarrow> Bottleneck list \<times> nat" where
  "bottleneck_planets_loop [] planet_id_arg target_item st = st"
| "bottleneck_planets_loop ((pid, planet) # rest) planet_id_arg target_item (bottlenecks, planets_analyzed) =
     (if skipped planet_id_arg pid then
        bottleneck_planets_loop rest planet_id_arg target_item (bottlenecks, planets_analyzed)
      else
        bottleneck_planets_loop rest planet_id_arg target_item
          (assemblers_loop (assemblers planet) planet target_item bottlenecks,
           planets_analyzed + 1))"

text \<open>
  \<open>xs.sort(key=k, reverse=True)\<close>: a stable sort into non-increasing key order, that
  is, a stable ascending sort on the negated key.
\<close>

definition sort_reverse :: "('a \<Rightarrow> real) \<Rightarrow> 'a list \<Rightarrow> 'a list" where
  "sort_reverse k xs = sort_key (\<lambda>x. - k x) xs"

record bottleneck_row =
  row_item :: string
  row_type :: string
  row_severity :: real
  row_throughput_loss :: real
  row_root_cause :: string
  row_recommendation :: string

definition bottleneck_to_row :: "Bottleneck \<Rightarrow> bottleneck_row" where
  "bottleneck_to_row b =
     \<lparr>row_item = Bottleneck.item_name b, row_type = bottleneck_type b,
      row_severity = severity b, row_throughput_loss = affected_throughput b,
      row_root_cause = root_cause b, row_recommendation = recommendation b\<rparr>"

record bottleneck_report =
  br_timestamp :: datetime
  br_planets_analyzed :: nat
  br_bottlenecks_found :: nat
  br_bottlenecks :: "bottleneck_row list"
  br_critical_path :: "string list"

text \<open>The list of findings once the loops are done, and after the sort.\<close>

definition collect_bottlenecks ::
  "FactoryState \<Rightarrow> int option \<Rightarrow> string option \<Rightarrow> Bottleneck list \<times> nat" where
  "collect_bottlenecks factory_state planet_id_arg target_item =
     bottleneck_planets_loop (planets factory_state) planet_id_arg target_item ([], 0)"

definition sorted_bottlenecks ::
  "FactoryState \<Rightarrow> int option \<Rightarrow> string option \<Rightarrow> Bottleneck list" where
  "sorted_bottlenecks factory_state planet_id_arg target_item =
     sort_reverse severity (fst (collect_bottlenecks factory_state planet_id_arg target_item))"

definition BottleneckAnalyzer_analyze ::
  "FactoryState \<Rightarrow> int option \<Rightarrow> string option \<Rightarrow> int \<Rightarrow> bool \<Rightarrow> bottleneck_report" where
  "BottleneckAnalyzer_analyze factory_state planet_id_arg target_item time_window include_downstream =
     (let bottlenecks = sorted_bottlenecks factory_state planet_id_arg target_item;
          planets_analyzed = snd (collect_bottlenecks factory_state planet_id_arg target_item)
      in \<lparr>br_timestamp = timestamp factory_state,
          br_planets_analyzed = planets_analyzed,
          br_bottlenecks_found = length bottlenecks,
          br_bottlenecks = map bottleneck_to_row (take 10 bottlenecks),
          br_critical_path =
            (if include_downstream then build_critical_path bottlenecks else [])\<rparr>)"

section \<open>tools/power\_analyzer.py\<close>

text \<open>\<open>int(x)\<close> of a float truncates towards zero.\<close>

definition int_of_float :: "real \<Rightarrow> int" where
  "int_of_float x = (if 0 \<le> x then \<lfloor>x\<rfloor> else \<lceil>x\<rceil>)"

definition generate_recommendation :: "PowerMetrics \<Rightarrow> fstring" where
  "generate_recommendation pw =
     (let deficit = \<bar>surplus_mw pw\<bar>
      in if deficit < 10 then
           [Lit ''Minor deficit of '', F1 deficit, Lit ''MW - add 1 thermal plant'']
         else if deficit < 50 then
           (let plants_needed = int_of_float (deficit / 15) + 1
            in [Lit ''Deficit of '', F1 deficit, Lit ''MW - add '', D plants_needed,
                Lit '' fusion plants''])
         else
           [Lit ''Major deficit of '', F1 deficit,
            Lit ''MW - consider artificial sun or ray receivers''])"

definition power_global_recommendations :: "real \<Rightarrow> real \<Rightarrow> fstring list" where
  "power_global_recommendations generation consumption =
     (let surplus = generation - consumption;
          surplus_percent = (if consumption > 0 then surplus / consumption * 100 else 100)
      in if surplus < 0 then
           [[Lit ''CRITICAL: Global power deficit of '', F1 \<bar>surplus\<bar>, Lit ''MW'']]
         else if surplus_percent < 10 then
           [[Lit ''WARNING: Power surplus below 10% ('', F1 surplus_percent, Lit ''%)''],
            [Lit ''Consider adding generation capacity before expanding'']]
         else if surplus_percent > 50 then
           [[Lit ''Healthy power surplus of '', F1 surplus_percent, Lit ''%'']]
         else [])"

text \<open>One entry of the report's \<open>"planets"\<close> list; the last two keys may be absent.\<close>

record power_row =
  pr_planet_id :: int
  pr_planet_name :: string
  pr_generation_mw :: real
  pr_consumption_mw :: real
  pr_surplus_mw :: real
  pr_status :: string
  pr_recommendation :: "fstring option"
  pr_accumulator_charge :: "fstring option"

definition power_planet_data :: "int \<Rightarrow> PlanetState \<Rightarrow> PowerMetrics \<Rightarrow> bool \<Rightarrow> power_row" where
  "power_planet_data pid planet pw include_accumulator_cycles =
     \<lparr>pr_planet_id = pid,
      pr_planet_name = planet_name planet,
      pr_generation_mw = py_round (generation_mw pw) 2,
      pr_consumption_mw = py_round (consumption_mw pw) 2,
      pr_surplus_mw = py_round (surplus_mw pw) 2,
      pr_status = (if surplus_mw pw \<ge> 0 then ''surplus'' else ''deficit''),
      pr_recommendation =
        (if surplus_mw pw < 0 then Some (generate_recommendation pw) else None),
      pr_accumulator_charge =
        (if include_accumulator_cycles
         then Some [F1 (accumulator_charge_percent pw), Lit ''%''] else None)\<rparr>"

text \<open>The variables the loop of \<open>PowerAnalyzer.analyze\<close> updates.\<close>

record power_vars =
  planets_data :: "power_row list"
  total_generation :: real
  total_consumption :: real
  deficits_found :: nat

fun power_planets_loop ::
  "(int \<times> PlanetState) list \<Rightarrow> int option \<Rightarrow> bool \<Rightarrow> power_vars \<Rightarrow> power_vars" where
  "power_planets_loop [] planet_id_arg include_accumulator_cycles v = v"
| "power_planets_loop ((pid, planet) # rest) planet_id_arg include_accumulator_cycles v =
     (if skipped planet_id_arg pid then
        power_planets_loop rest planet_id_arg include_accumulator_cycles v
      else
        (case power planet of
           None \<Rightarrow> power_planets_loop rest planet_id_arg include_accumulator_cycles v
         | Some pw \<Rightarrow>
             power_planets_loop rest planet_id_arg include_accumulator_cycles
               \<lparr>planets_data =
                  planets_data v @ [power_planet_data pid planet pw include_accumulator_cycles],
                total_generation = fl (total_generation v + generation_mw pw),
                total_consumption = fl (total_consumption v + consumption_mw pw),
                deficits_found =
                  (if surplus_mw pw < 0 then deficits_found v + 1 else deficits_found v)\<rparr>))"

record power_summary =
  total_generation_mw :: real
  total_consumption_mw :: real
  net_surplus_mw :: real
  planets_with_deficit :: nat

record power_report =
  pw_timestamp :: datetime
  pw_summary :: power_summary
  pw_planets :: "power_row list"
  pw_recommendations :: "fstring list"

definition power_vars_init :: power_vars where
  "power_vars_init =
     \<lparr>planets_data = [], total_generation = 0, total_consumption = 0, deficits_found = 0\<rparr>"

definition PowerAnalyzer_analyze :: "FactoryState \<Rightarrow> int option \<Rightarrow> bool \<Rightarrow> power_report" where
  "PowerAnalyzer_analyze factory_state planet_id_arg include_accumulator_cycles =
     (let v = power_planets_loop (planets factory_state) planet_id_arg
                include_accumulator_cycles power_vars_init
      in \<lparr>pw_timestamp = timestamp factory_state,
          pw_summary =
            \<lparr>total_generation_mw = py_round (total_generation v) 2,
             total_consumption_mw = py_round (total_consumption v) 2,
             net_surplus_mw = py_round (fl (total_generation v - total_consumption v)) 2,
             planets_with_deficit = deficits_found v\<rparr>,
          pw_planets = planets_data v,
          pw_recommendations =
            power_global_recommendations (total_generation v) (total_consumption v)\<rparr>)"

section \<open>tools/logistics\_analyzer.py\<close>

definition detect_tier :: "real \<Rightarrow> string" where
  "detect_tier mx = (if mx \<le> 6 then ''mk1'' else if mx \<le> 12 then ''mk2'' else ''mk3'')"

definition upgrade_recommendation :: "BeltMetrics \<Rightarrow> string" where
  "upgrade_recommendation belt =
     (let current_tier = detect_tier (max_throughput belt)
      in if current_tier = ''mk1'' then ''Upgrade to Mk2 (green) belt for 2x throughput''
         else if current_tier = ''mk2'' then ''Upgrade to Mk3 (yellow) belt for 2.5x throughput''
         else ''At max tier - consider parallel belt lines'')"

text \<open>
  \<open>belt_data\<close>. The keys \<open>"status"\<close> and \<open>"recommendation"\<close> are set after the
  dictionary is built; every entry that reaches a list has a status.
\<close>

record belt_row =
  bd_planet_id :: int
  bd_belt_id :: int
  bd_item :: string
  bd_throughput :: real
  bd_max_throughput :: real
  bd_saturation :: real
  bd_status :: "string option"
  bd_recommendation :: "string option"

definition belt_data :: "int \<Rightarrow> BeltMetrics \<Rightarrow> belt_row" where
  "belt_data pid belt =
     \<lparr>bd_planet_id = pid,
      bd_belt_id = belt_id belt,
      bd_item = item_type belt,
      bd_throughput = py_round (throughput belt) 2,
      bd_max_throughput = max_throughput belt,
      bd_saturation = py_round (saturation_percent belt) 1,
      bd_status = None,
      bd_recommendation = None\<rparr>"

text \<open>\<open>item_filter and belt.item_type not in item_filter\<close>: the belt is filtered out.\<close>

definition filtered_out :: "string list option \<Rightarrow> BeltMetrics \<Rightarrow> bool" where
  "filtered_out item_filter belt =
     (case item_filter of
        None \<Rightarrow> False
      | Some items \<Rightarrow> items \<noteq> [] \<and> item_type belt \<notin> set items)"

text \<open>The inner loop; the state is the pair \<open>(saturated_belts, near_saturation)\<close>.\<close>

fun belts_loop ::
  "BeltMetrics list \<Rightarrow> int \<Rightarrow> string list option \<Rightarrow> real \<Rightarrow>
   belt_row list \<times> belt_row list \<Rightarrow> belt_row list \<times> belt_row list" where
  "belts_loop [] pid item_filter saturation_threshold st = st"
| "belts_loop (belt # rest) pid item_filter saturation_threshold (saturated_belts, near_saturation) =
     (if filtered_out item_filter belt then
        belts_loop rest pid item_filter saturation_threshold (saturated_belts, near_saturation)
      else if saturation_percent belt \<ge> saturation_threshold then
        belts_loop rest pid item_filter saturation_threshold
          (saturated_belts @
             [(belt_data pid belt)\<lparr>bd_status := Some ''saturated'',
                                   bd_recommendation := Some (upgrade_recommendation belt)\<rparr>],
           near_saturation)
      else if saturation_percent belt \<ge> saturation_threshold - 10 then
        belts_loop rest pid item_filter saturation_threshold
          (saturated_belts,
           near_saturation @ [(belt_data pid belt)\<lparr>bd_status := Some ''near_saturation''\<rparr>])
      else
        belts_loop rest pid item_filter saturation_threshold (saturated_belts, near_saturation))"

fun logistics_planets_loop ::
  "(int \<times> PlanetState) list \<Rightarrow> int option \<Rightarrow> string list option \<Rightarrow> real \<Rightarrow>
   belt_row list \<times> belt_row list \<Rightarrow> belt_row list \<times> belt_row list" where
  "logistics_planets_loop [] planet_id_arg item_filter saturation_threshold st = st"
| "logistics_planets_loop ((pid, planet) # rest) planet_id_arg item_filter saturation_threshold st =
     (if skipped planet_id_arg pid then
        logistics_planets_loop rest planet_id_arg item_filter saturation_threshold st
      else
        logistics_planets_loop rest planet_id_arg item_filter saturation_threshold
          (belts_loop (belts planet) pid item_filter saturation_threshold st))"

text \<open>\<open>item_counts[item] = item_counts.get(item, 0) + 1\<close> for each saturated belt.\<close>

fun count_items :: "belt_row list \<Rightarrow> (string \<times> int) list \<Rightarrow> (string \<times> int) list" where
  "count_items [] item_counts = item_counts"
| "count_items (belt # rest) item_counts =
     count_items rest
       (AList.update (bd_item belt) (get_or (map_of item_counts (bd_item belt)) 0 + 1) item_counts)"

text \<open>
  \<open>max(item_counts, key=item_counts.get)\<close> on a non-empty dictionary: the first key, in
  iteration order, whose count is greatest.
\<close>

fun max_by_count :: "string \<times> int \<Rightarrow> (string \<times> int) list \<Rightarrow> string \<times> int" where
  "max_by_count best [] = best"
| "max_by_count best (kv # rest) = max_by_count (if snd kv > snd best then kv else best) rest"

definition logistics_global_recommendations :: "belt_row list \<Rightarrow> fstring list" where
  "logistics_global_recommendations saturated_belts =
     (if length saturated_belts = 0 then
        [[Lit ''No saturated belts detected - logistics healthy'']]
      else if length saturated_belts < 5 then
        [[D (int (length saturated_belts)),
          Lit '' saturated belts - targeted upgrades recommended'']]
      else
        [[D (int (length saturated_belts)),
          Lit '' saturated belts - consider systematic belt upgrade'']] @
        (case count_items saturated_belts [] of
           [] \<Rightarrow> []
         | kv # rest \<Rightarrow>
             (let worst = max_by_count kv rest
              in [[Lit ''Most congested item: '', S (fst worst), Lit '' ('', D (snd worst),
                   Lit '' belts)'']])))"

record logistics_summary =
  saturated_count :: nat
  near_saturation_count :: nat

record logistics_report =
  lg_timestamp :: datetime
  lg_threshold :: real
  lg_summary :: logistics_summary
  lg_saturated_belts :: "belt_row list"
  lg_near_saturation :: "belt_row list"
  lg_recommendations :: "fstring list"

text \<open>The two lists when the loops are done, before they are sorted.\<close>

definition classify_belts ::
  "FactoryState \<Rightarrow> int option \<Rightarrow> string list option \<Rightarrow> real \<Rightarrow> belt_row list \<times> belt_row list" where
  "classify_belts factory_state planet_id_arg item_filter saturation_threshold =
     logistics_planets_loop (planets factory_state) planet_id_arg item_filter
       saturation_threshold ([], [])"

definition LogisticsAnalyzer_analyze ::
  "FactoryState \<Rightarrow> int option \<Rightarrow> string list option \<Rightarrow> real \<Rightarrow> logistics_report" where
  "LogisticsAnalyzer_analyze factory_state planet_id_arg item_filter saturation_threshold =
     (let st = classify_belts factory_state planet_id_arg item_filter saturation_threshold;
          saturated_belts = sort_reverse bd_saturation (fst st);
          near_saturation = sort_reverse bd_saturation (snd st)
      in \<lparr>lg_timestamp = timestamp factory_state,
          lg_threshold = saturation_threshold,
          lg_summary =
            \<lparr>saturated_count = length saturated_belts,
             near_saturation_count = length near_saturation\<rparr>,
          lg_saturated_belts = take 20 saturated_belts,
          lg_near_saturation = take 10 near_saturation,
          lg_recommendations = logistics_global_recommendations saturated_belts\<rparr>)"

section \<open>data\_sources/realtime\_stream.py\<close>

text \<open>
  The client's fields. The websocket and the receive task are opaque handles. What the
  network does is an input of the model: \<open>connect_outcome\<close> is what one call of
  \<open>websockets.connect\<close> yields, and a \<open>bg_event\<close> is one thing the receive loop does
  to the client while the caller sleeps.
\<close>

record RealTimeStream =
  uri :: fstring
  websocket :: "nat option"
  latest_state :: "FactoryState option"
  receive_task :: "nat option"
  connected :: bool

datatype connect_outcome = Refused string | Opened nat

datatype bg_event = Frame FactoryState | Closed

datatype io_event = Connect_attempt | Sleep

definition new_RealTimeStream :: "string \<Rightarrow> int \<Rightarrow> RealTimeStream" where
  "new_RealTimeStream host port =
     \<lparr>uri = [Lit ''ws://'', S host, Lit '':'', D port], websocket = None, latest_state = None,
      receive_task = None, connected = False\<rparr>"

text \<open>\<open>connect\<close> catches every exception of the attempt and returns \<open>False\<close>.\<close>

definition connect :: "connect_outcome \<Rightarrow> RealTimeStream \<Rightarrow> bool \<times> RealTimeStream" where
  "connect outcome s =
     (case outcome of
        Opened h \<Rightarrow> (True, s\<lparr>websocket := Some h, receive_task := Some h, connected := True\<rparr>)
      | Refused msg \<Rightarrow> (False, s\<lparr>connected := False\<rparr>))"

definition is_connected :: "RealTimeStream \<Rightarrow> bool" where
  "is_connected s = (connected s \<and> latest_state s \<noteq> None)"

fun receive :: "RealTimeStream \<Rightarrow> bg_event \<Rightarrow> RealTimeStream" where
  "receive s (Frame fs) = s\<lparr>latest_state := Some fs\<rparr>"
| "receive s Closed = s\<lparr>connected := False\<rparr>"

text \<open>
  The timer of the polling loop: \<open>elapsed\<close> after \<open>k\<close> times \<open>elapsed += 0.1\<close>
  from \<open>0.0\<close>, in doubles. It passes 5 after 51 additions at the latest.
\<close>

fun elapsed_after :: "nat \<Rightarrow> real" where
  "elapsed_after 0 = 0"
| "elapsed_after (Suc k) = fl (elapsed_after k + fl (1 / 10))"

lemma round_half_even_error: "\<bar>of_int (round_half_even x) - x\<bar> \<le> 1 / 2"
proof -
  have "of_int \<lfloor>x\<rfloor> \<le> x" and "x < of_int \<lfloor>x\<rfloor> + 1"
    by linarith+
  then show ?thesis
    by (auto simp: round_half_even_def Let_def)
qed

lemma round_half_even_of_int: "round_half_even (of_int m) = m"
  by (simp add: round_half_even_def)

lemma pow2_eq_powr: "pow2 e = (2::real) powr (of_int e)"
  by (simp add: pow2_def powr_int)

lemma pow2_pos: "0 < pow2 e"
  by (simp add: pow2_eq_powr)

lemma pow2_add: "pow2 (a + b) = pow2 a * pow2 b"
  by (simp add: pow2_eq_powr powr_add)

lemma pow2_mono: "a \<le> b \<Longrightarrow> pow2 a \<le> pow2 b"
  by (simp add: pow2_eq_powr)

lemma pow2_less_iff: "pow2 a < pow2 b \<longleftrightarrow> a < b"
  by (simp add: pow2_eq_powr)

lemma pow2_neg_nat: "pow2 (- int n) = 1 / 2 ^ n"
  by (simp add: pow2_eq_powr powr_minus_divide powr_realpow)

lemma exp_up_lower: "pow2 e \<le> a \<Longrightarrow> pow2 (exp_up n a e) \<le> a"
  by (induction n a e rule: exp_up.induct) auto

lemma exp_up_ge: "e \<le> exp_up n a e"
  by (induction n a e rule: exp_up.induct) auto

lemma exp_down_le: "exp_down n a e \<le> e"
  by (induction n a e rule: exp_down.induct) auto

lemma float_exponent_le_0: "a < 1 \<Longrightarrow> float_exponent a \<le> 0"
  by (simp add: float_exponent_def exp_down_le)

lemma float_exponent_lower: "1 \<le> a \<Longrightarrow> pow2 (float_exponent a) \<le> a \<and> 0 \<le> float_exponent a"
  using exp_up_lower [of 0 a 1023] exp_up_ge [of 0 1023 a]
  by (simp add: float_exponent_def pow2_def)

lemma fl_error: "\<bar>fl x - x\<bar> \<le> pow2 (float_exponent \<bar>x\<bar> - 52) / 2"
proof -
  define u where "u = pow2 (float_exponent \<bar>x\<bar> - 52)"
  have u: "0 < u" by (simp add: u_def pow2_pos)
  have "fl x - x = (of_int (round_half_even (x / u)) - x / u) * u"
    using u by (simp add: fl_def Let_def u_def [symmetric] algebra_simps)
  then have "\<bar>fl x - x\<bar> = \<bar>of_int (round_half_even (x / u)) - x / u\<bar> * u"
    using u by (simp add: abs_mult)
  also have "\<dots> \<le> (1 / 2) * u"
    using round_half_even_error [of "x / u"] u by (intro mult_right_mono) auto
  finally show ?thesis by (simp add: u_def)
qed

text \<open>The error of \<open>fl\<close> is at most \<open>2 ^ -53\<close> times the magnitude, or times 1 below 1.\<close>

lemma fl_error_rel: "\<bar>fl x - x\<bar> \<le> max \<bar>x\<bar> 1 / 2 ^ 53"
proof (cases "1 \<le> \<bar>x\<bar>")
  case True
  from float_exponent_lower [OF True]
  have "pow2 (float_exponent \<bar>x\<bar>) \<le> \<bar>x\<bar>" by simp
  moreover have "pow2 (float_exponent \<bar>x\<bar> - 52) = pow2 (float_exponent \<bar>x\<bar>) * pow2 (- 52)"
    using pow2_add [of "float_exponent \<bar>x\<bar>" "- 52"] by simp
  moreover have "pow2 (- 52) = 1 / 2 ^ 52" by (simp add: pow2_def)
  ultimately have "pow2 (float_exponent \<bar>x\<bar> - 52) / 2 \<le> \<bar>x\<bar> / 2 ^ 53"
    by simp
  with fl_error [of x] True show ?thesis by (simp add: max_def)
next
  case False
  then have "float_exponent \<bar>x\<bar> - 52 \<le> - 52"
    using float_exponent_le_0 [of "\<bar>x\<bar>"] by simp
  then have "pow2 (float_exponent \<bar>x\<bar> - 52) \<le> pow2 (- 52)"
    by (rule pow2_mono)
  moreover have "pow2 (- 52) = 1 / 2 ^ 52" by (simp add: pow2_def)
  ultimately have "pow2 (float_exponent \<bar>x\<bar> - 52) / 2 \<le> 1 / 2 ^ 53"
    by simp
  with fl_error [of x] False show ?thesis by (simp add: max_def)
qed

lemma fl_near:
  "fl x \<le> x + max \<bar>x\<bar> 1 / 2 ^ 53" "x - max \<bar>x\<bar> 1 / 2 ^ 53 \<le> fl x"
  using fl_error_rel [of x] by linarith+

lemma tenth_bounds: "999 / 10000 \<le> fl (1 / 10) \<and> fl (1 / 10) \<le> 1001 / 10000"
proof -
  have "max \<bar>1 / 10 :: real\<bar> 1 / 2 ^ 53 \<le> 1 / 10000" by simp
  with fl_near [of "1 / 10"] show ?thesis by linarith
qed

lemma fl_step_lower:
  assumes "0 \<le> x" and "999 / 10000 \<le> c"
  shows "min 5 (x + 99 / 1000) \<le> fl (x + c)"
proof -
  define y where "y = x + c"
  define m where "m = max \<bar>y\<bar> 1 / 2 ^ 53"
  have f: "y - m \<le> fl y" unfolding m_def by (rule fl_near(2))
  from assms have ypos: "0 < y" unfolding y_def by linarith
  show ?thesis
  proof (cases "y \<le> 6")
    case True
    with ypos have "max \<bar>y\<bar> 1 \<le> 6" by (simp add: max_def)
    then have "m \<le> 6 / 2 ^ 53"
      unfolding m_def by (rule divide_right_mono) simp
    then have "m \<le> 1 / 10000" by simp
    with f assms(2) have "x + 99 / 1000 \<le> fl y" unfolding y_def by linarith
    then show ?thesis unfolding y_def by simp
  next
    case False
    then have "max \<bar>y\<bar> 1 = y" by (simp add: max_def)
    then have "m = y / 2 ^ 53" by (simp add: m_def)
    with ypos have "m \<le> y / 6" by simp
    with f False have "5 \<le> fl y" by linarith
    then show ?thesis unfolding y_def by simp
  qed
qed

lemma elapsed_after_lower: "min 5 (99 / 1000 * real k) \<le> elapsed_after k"
proof (induction k)
  case 0
  show ?case by simp
next
  case (Suc k)
  from Suc have nonneg: "0 \<le> elapsed_after k" by (simp add: min_def split: if_splits)
  have s: "99 / 1000 * real (Suc k) = 99 / 1000 * real k + 99 / 1000"
    by (simp add: algebra_simps)
  from fl_step_lower [OF nonneg] tenth_bounds
  have step: "min 5 (elapsed_after k + 99 / 1000) \<le> fl (elapsed_after k + fl (1 / 10))"
    by blast
  show ?case
  proof (cases "5 \<le> elapsed_after k")
    case True
    with step have "5 \<le> fl (elapsed_after k + fl (1 / 10))"
      by (simp add: min_def split: if_splits)
    then show ?thesis by simp
  next
    case False
    with Suc have "99 / 1000 * real k \<le> elapsed_after k"
      by (simp add: min_def split: if_splits)
    then have "min 5 (99 / 1000 * real (Suc k)) \<le> min 5 (elapsed_after k + 99 / 1000)"
      unfolding s by (simp add: min_def)
    with step show ?thesis by simp
  qed
qed

lemma elapsed_after_51: "51 \<le> k \<Longrightarrow> 5 \<le> elapsed_after k"
proof -
  assume "51 \<le> k"
  then have "(5::real) \<le> 99 / 1000 * real k" by simp
  with elapsed_after_lower [of k] show ?thesis by (simp add: min_def)
qed

text \<open>
  The polling loop of \<open>get_current_state\<close>, entered with \<open>k = 0\<close>: \<open>during_sleep k\<close>
  lists what the receive loop does during the \<open>k\<close>-th sleep. It returns the client and
  the number of sleeps.
\<close>

function wait_for_state ::
  "(nat \<Rightarrow> bg_event list) \<Rightarrow> RealTimeStream \<Rightarrow> nat \<Rightarrow> RealTimeStream \<times> nat" where
  "wait_for_state during_sleep s k =
     (if latest_state s = None \<and> elapsed_after k < 5
      then wait_for_state during_sleep (foldl receive s (during_sleep k)) (Suc k)
      else (s, k))"
  by pat_completeness auto
termination
proof (relation "measure (\<lambda>(during_sleep, s, k). 51 - k)")
  show "wf (measure (\<lambda>(during_sleep, s, k). 51 - k))"
    by simp
next
  fix during_sleep :: "nat \<Rightarrow> bg_event list" and s :: RealTimeStream and k :: nat
  assume "latest_state s = None \<and> elapsed_after k < 5"
  then have "\<not> 51 \<le> k"
    using elapsed_after_51 [of k] by auto
  then show "((during_sleep, foldl receive s (during_sleep k), Suc k), (during_sleep, s, k))
             \<in> measure (\<lambda>(during_sleep, s, k). 51 - k)"
    by simp
qed

text \<open>
  \<open>get_current_state\<close>. \<open>outcomes n\<close> is what the \<open>n\<close>-th connection attempt made
  during the call would yield. The result comes with the client afterwards and the
  trace of connection attempts and sleeps.
\<close>

definition finish_wait ::
  "RealTimeStream \<times> nat \<Rightarrow> io_event list \<Rightarrow>
   (py_error + FactoryState) \<times> RealTimeStream \<times> io_event list" where
  "finish_wait r trace =
     (case latest_state (fst r) of
        None \<Rightarrow> (Inl (TimeoutError ''No data received from game''), fst r,
                 trace @ replicate (snd r) Sleep)
      | Some fs \<Rightarrow> (Inr fs, fst r, trace @ replicate (snd r) Sleep))"

definition get_current_state ::
  "(nat \<Rightarrow> connect_outcome) \<Rightarrow> (nat \<Rightarrow> bg_event list) \<Rightarrow> RealTimeStream \<Rightarrow>
   (py_error + FactoryState) \<times> RealTimeStream \<times> io_event list" where
  "get_current_state outcomes during_sleep s =
     (if \<not> is_connected s then
        (case connect (outcomes 0) s of
           (ok, s1) \<Rightarrow>
             if \<not> ok then (Inl (ConnectionError ''Cannot connect to game''), s1, [Connect_attempt])
             else finish_wait (wait_for_state during_sleep s1 0) [Connect_attempt])
      else finish_wait (wait_for_state during_sleep s 0) [])"

section \<open>data\_sources/save\_parser.py\<close>

text \<open>
  What \<open>parse_file\<close> asks of the file system, of \<open>pathlib\<close> and of the clock:
  whether the path exists, the path's suffix, and the current time.
\<close>

record fs_env =
  path_exists :: "string \<Rightarrow> bool"
  path_suffix :: "string \<Rightarrow> string"
  clock_now :: datetime

definition py_lower :: "string \<Rightarrow> string" where
  "py_lower s =
     map (\<lambda>c. if 65 \<le> (of_char c :: nat) \<and> (of_char c :: nat) \<le> 90
              then char_of ((of_char c :: nat) + 32) else c) s"

definition parse_file :: "fs_env \<Rightarrow> string \<Rightarrow> py_error + FactoryState" where
  "parse_file env file_path =
     (if \<not> path_exists env file_path then
        Inl (FileNotFoundError (''Save file not found: '' @ file_path))
      else if \<not> (py_lower (path_suffix env file_path) = ''.dsv'') then
        Inl (ValueError (''Invalid file type: '' @ path_suffix env file_path @ '' (expected .dsv)''))
      else Inr (from_save_data (clock_now env)))"

section \<open>server.py\<close>

text \<open>What a tool returns: a report, the dictionary of three reports, or an error.\<close>

datatype tool_result =
    Production_report bottleneck_report
  | Power_report power_report
  | Logistics_report logistics_report
  | Full_report bottleneck_report power_report logistics_report
  | Error_result string string

text \<open>The two \<open>except\<close> clauses of \<open>load_save_analysis\<close>, in their order.\<close>

definition on_exception :: "py_error \<Rightarrow> tool_result" where
  "on_exception e =
     (if is_FileNotFoundError e then Error_result ''file_not_found'' (str_of_error e)
      else Error_result ''parse_failed'' (str_of_error e))"

text \<open>
  The body of \<open>load_save_analysis\<close> with the three \<open>analyze\<close> calls as parameters, so
  that a call may raise: every statement is inside the one \<open>try\<close>.
\<close>

definition load_save_analysis_with ::
  "(FactoryState \<Rightarrow> py_error + bottleneck_report) \<Rightarrow>
   (FactoryState \<Rightarrow> py_error + power_report) \<Rightarrow>
   (FactoryState \<Rightarrow> py_error + logistics_report) \<Rightarrow>
   fs_env \<Rightarrow> string \<Rightarrow> string \<Rightarrow> tool_result" where
  "load_save_analysis_with bottleneck_analyze power_analyze logistics_analyze env
     save_file_path analysis_type =
     (case parse_file env save_file_path of
        Inl e \<Rightarrow> on_exception e
      | Inr factory_state \<Rightarrow>
          if analysis_type = ''production'' then
            (case bottleneck_analyze factory_state of
               Inl e \<Rightarrow> on_exception e | Inr r \<Rightarrow> Production_report r)
          else if analysis_type = ''power'' then
            (case power_analyze factory_state of
               Inl e \<Rightarrow> on_exception e | Inr r \<Rightarrow> Power_report r)
          else if analysis_type = ''logistics'' then
            (case logistics_analyze factory_state of
               Inl e \<Rightarrow> on_exception e | Inr r \<Rightarrow> Logistics_report r)
          else
            (case bottleneck_analyze factory_state of
               Inl e \<Rightarrow> on_exception e
             | Inr b \<Rightarrow>
                 (case power_analyze factory_state of
                    Inl e \<Rightarrow> on_exception e
                  | Inr p \<Rightarrow>
                      (case logistics_analyze factory_state of
                         Inl e \<Rightarrow> on_exception e
                       | Inr l \<Rightarrow> Full_report b p l))))"

text \<open>The analyzers as the server calls them, with the default arguments.\<close>

definition load_save_analysis :: "fs_env \<Rightarrow> string \<Rightarrow> string \<Rightarrow> tool_result" where
  "load_save_analysis env save_file_path analysis_type =
     load_save_analysis_with
       (\<lambda>factory_state. Inr (BottleneckAnalyzer_analyze factory_state None None 60 True))
       (\<lambda>factory_state. Inr (PowerAnalyzer_analyze factory_state None True))
       (\<lambda>factory_state. Inr (LogisticsAnalyzer_analyze factory_state None None 95))
       env save_file_path analysis_type"

text \<open>The sections of a returned dictionary: \<open>result.get("production")\<close> and so on.\<close>

fun result_production :: "tool_result \<Rightarrow> bottleneck_report option" where
  "result_production (Full_report b p l) = Some b"
| "result_production r = None"

fun result_power :: "tool_result \<Rightarrow> power_report option" where
  "result_power (Full_report b p l) = Some p"
| "result_power r = None"

fun result_logistics :: "tool_result \<Rightarrow> logistics_report option" where
  "result_logistics (Full_report b p l) = Some l"
| "result_logistics r = None"

section \<open>Vocabulary of the properties\<close>

text \<open>
  The definitions of this section are not code of the program. They name what the
  properties talk about: the planets an analysis selects, what one assembler or one belt
  contributes, and concrete inputs on which the theorems are exercised.
\<close>

definition selected_planets :: "FactoryState \<Rightarrow> int option \<Rightarrow> (int \<times> PlanetState) list" where
  "selected_planets factory_state planet_id_arg =
     filter (\<lambda>(pid, planet). \<not> skipped planet_id_arg pid) (planets factory_state)"

subsection \<open>Bottlenecks\<close>

text \<open>The finding of one assembler: the body of the inner loop.\<close>

definition finding_of :: "AssemblerMetrics \<Rightarrow> PlanetState \<Rightarrow> string option \<Rightarrow> Bottleneck option" where
  "finding_of assembler planet target_item =
     (if efficiency assembler < 90 then analyze_assembler assembler planet target_item else None)"

definition planet_findings :: "PlanetState \<Rightarrow> string option \<Rightarrow> Bottleneck list" where
  "planet_findings planet target_item =
     List.map_filter (\<lambda>a. finding_of a planet target_item) (assemblers planet)"

text \<open>
  The findings of an analysis: those of the assemblers of the selected planets, planet
  by planet and assembler by assembler.
\<close>

definition all_findings :: "FactoryState \<Rightarrow> int option \<Rightarrow> string option \<Rightarrow> Bottleneck list" where
  "all_findings factory_state planet_id_arg target_item =
     concat (map (\<lambda>(pid, planet).
                    List.map_filter (\<lambda>a. finding_of a planet target_item) (assemblers planet))
                 (selected_planets factory_state planet_id_arg))"

definition example_assemblers :: "AssemblerMetrics list" where
  "example_assemblers =
     [mk_AssemblerMetrics 1 7 40 100 True False,
      mk_AssemblerMetrics 2 7 95 100 True True,
      mk_AssemblerMetrics 3 7 20 100 False True,
      mk_AssemblerMetrics 4 7 50 100 False False,
      mk_AssemblerMetrics 5 7 40 100 True True]"

definition example_factory :: FactoryState where
  "example_factory =
     \<lparr>timestamp = 0,
      planets = [(1, (new_PlanetState 1)\<lparr>assemblers := example_assemblers\<rparr>)]\<rparr>"


subsection \<open>Belts\<close>

text \<open>The belts an analysis looks at, each with the id of its planet, in loop order.\<close>

definition selected_belts ::
  "FactoryState \<Rightarrow> int option \<Rightarrow> string list option \<Rightarrow> (int \<times> BeltMetrics) list" where
  "selected_belts factory_state planet_id_arg item_filter =
     concat (map (\<lambda>(pid, planet).
                    map (Pair pid) (filter (\<lambda>belt. \<not> filtered_out item_filter belt) (belts planet)))
                 (selected_planets factory_state planet_id_arg))"

definition saturated_row :: "int \<Rightarrow> BeltMetrics \<Rightarrow> belt_row" where
  "saturated_row pid belt =
     (belt_data pid belt)\<lparr>bd_status := Some ''saturated'',
                           bd_recommendation := Some (upgrade_recommendation belt)\<rparr>"

definition near_row :: "int \<Rightarrow> BeltMetrics \<Rightarrow> belt_row" where
  "near_row pid belt = (belt_data pid belt)\<lparr>bd_status := Some ''near_saturation''\<rparr>"

definition is_saturated :: "real \<Rightarrow> BeltMetrics \<Rightarrow> bool" where
  "is_saturated saturation_threshold belt = (saturation_percent belt \<ge> saturation_threshold)"

definition is_near :: "real \<Rightarrow> BeltMetrics \<Rightarrow> bool" where
  "is_near saturation_threshold belt =
     (saturation_threshold - 10 \<le> saturation_percent belt
      \<and> saturation_percent belt < saturation_threshold)"

definition belt_factory :: FactoryState where
  "belt_factory =
     \<lparr>timestamp = 0,
      planets = [(1, (new_PlanetState 1)
                   \<lparr>belts := [mk_BeltMetrics 1 ''iron'' 29 30,
                              mk_BeltMetrics 2 ''copper'' 27 30,
                              mk_BeltMetrics 3 ''iron'' 6 12]\<rparr>)]\<rparr>"

subsection \<open>Power\<close>

text \<open>The selected planets that have power data, in loop order.\<close>

definition powered_planets ::
  "FactoryState \<Rightarrow> int option \<Rightarrow> (int \<times> PlanetState \<times> PowerMetrics) list" where
  "powered_planets factory_state planet_id_arg =
     concat (map (\<lambda>(pid, planet).
                    case power planet of None \<Rightarrow> [] | Some pw \<Rightarrow> [(pid, planet, pw)])
                 (selected_planets factory_state planet_id_arg))"

text \<open>
  A sum as the loop accumulates it: from \<open>0.0\<close>, each addition rounded to a double.
\<close>

definition float_sum :: "real list \<Rightarrow> real" where
  "float_sum xs = foldl (\<lambda>a x. fl (a + x)) 0 xs"

definition sum_generation :: "FactoryState \<Rightarrow> int option \<Rightarrow> real" where
  "sum_generation factory_state planet_id_arg =
     float_sum (map (\<lambda>(pid, planet, pw). generation_mw pw)
                    (powered_planets factory_state planet_id_arg))"

definition sum_consumption :: "FactoryState \<Rightarrow> int option \<Rightarrow> real" where
  "sum_consumption factory_state planet_id_arg =
     float_sum (map (\<lambda>(pid, planet, pw). consumption_mw pw)
                    (powered_planets factory_state planet_id_arg))"

text \<open>
  The power values of the selected planets are whole numbers of MW whose magnitudes add
  up to at most \<open>2 ^ 53\<close>.
\<close>

definition whole_megawatts :: "FactoryState \<Rightarrow> int option \<Rightarrow> bool" where
  "whole_megawatts factory_state planet_id_arg =
     (list_all (\<lambda>(pid, planet, pw). generation_mw pw \<in> \<int> \<and> consumption_mw pw \<in> \<int>)
               (powered_planets factory_state planet_id_arg)
      \<and> sum_list (map (\<lambda>(pid, planet, pw). \<bar>generation_mw pw\<bar> + \<bar>consumption_mw pw\<bar>)
                       (powered_planets factory_state planet_id_arg)) \<le> 2 ^ 53)"

text \<open>Planet 1 generates 100 MW and consumes 120 MW.\<close>

definition deficit_factory :: FactoryState where
  "deficit_factory =
     \<lparr>timestamp = 0,
      planets = [(1, (new_PlanetState 1)\<lparr>power := Some (mk_PowerMetrics 100 120 0)\<rparr>)]\<rparr>"

text \<open>
  Planet 1 generates 0.0078125 MW and consumes 0.0146484375 MW; both are doubles
  (\<open>1 / 128\<close> and \<open>15 / 1024\<close>).
\<close>

definition milliwatt_factory :: FactoryState where
  "milliwatt_factory =
     \<lparr>timestamp = 0,
      planets = [(1, (new_PlanetState 1)
                   \<lparr>power := Some (mk_PowerMetrics (1 / 128) (15 / 1024) 0)\<rparr>)]\<rparr>"

subsection \<open>Frames, clients and saves\<close>






text \<open>The first attempt is refused; a second one would succeed.\<close>

definition refuse_first :: "nat \<Rightarrow> connect_outcome" where
  "refuse_first n = (if n = 0 then Refused ''connection refused'' else Opened 1)"

text \<open>A file system in which every path exists and has the suffix \<open>.dsv\<close>.\<close>

definition dsv_env :: fs_env where
  "dsv_env = \<lparr>path_exists = (\<lambda>p. True), path_suffix = (\<lambda>p. ''.dsv''), clock_now = 0\<rparr>"

text \<open>A file system in which no path exists.\<close>

definition no_file_env :: fs_env where
  "no_file_env = \<lparr>path_exists = (\<lambda>p. False), path_suffix = (\<lambda>p. ''.dsv''), clock_now = 0\<rparr>"

text \<open>An analyzer call that raises.\<close>

definition faulty :: "FactoryState \<Rightarrow> py_error + 'a" where
  "faulty factory_state = Inl (Exception ''internal fault'')"

definition ok_bottleneck :: "FactoryState \<Rightarrow> py_error + bottleneck_report" where
  "ok_bottleneck factory_state = Inr (BottleneckAnalyzer_analyze factory_state None None 60 True)"

definition ok_power :: "FactoryState \<Rightarrow> py_error + power_report" where
  "ok_power factory_state = Inr (PowerAnalyzer_analyze factory_state None True)"

definition ok_logistics :: "FactoryState \<Rightarrow> py_error + logistics_report" where
  "ok_logistics factory_state = Inr (LogisticsAnalyzer_analyze factory_state None None 95)"

section \<open>Lemmas\<close>

subsection \<open>Sorting\<close>



lemma set_sort_reverse: "set (sort_reverse k xs) = set xs"
  by (simp add: sort_reverse_def)

lemma length_sort_reverse: "length (sort_reverse k xs) = length xs"
  by (simp add: sort_reverse_def)

subsection \<open>The bottleneck loops\<close>

lemma assemblers_loop_eq:
  "assemblers_loop xs planet ti bs = bs @ List.map_filter (\<lambda>a. finding_of a planet ti) xs"
  by (induction xs arbitrary: bs)
     (simp_all add: finding_of_def split: option.splits)

lemma bottleneck_planets_loop_eq:
  "bottleneck_planets_loop ps pid ti (bs, n) =
     (bs @ concat (map (\<lambda>(p, planet). planet_findings planet ti)
                      (filter (\<lambda>(p, planet). \<not> skipped pid p) ps)),
      n + length (filter (\<lambda>(p, planet). \<not> skipped pid p) ps))"
  by (induction ps arbitrary: bs n)
     (auto simp: assemblers_loop_eq planet_findings_def)

lemma collect_bottlenecks_eq:
  "collect_bottlenecks fs pid ti =
     (concat (map (\<lambda>(p, planet). planet_findings planet ti) (selected_planets fs pid)),
      length (selected_planets fs pid))"
  by (simp add: collect_bottlenecks_def bottleneck_planets_loop_eq selected_planets_def)

lemma finding_of_Some_iff:
  "(finding_of a planet ti \<noteq> None) = (efficiency a < 90 \<and> (input_starved a \<or> output_blocked a))"
  by (simp add: finding_of_def analyze_assembler_def)

lemma finding_of_type:
  "finding_of a planet ti = Some b \<Longrightarrow>
     bottleneck_type b = (if input_starved a then ''input_starvation'' else ''output_blocked'')
     \<and> severity b = 100 - efficiency a \<and> efficiency a < 90"
  by (auto simp: finding_of_def analyze_assembler_def split: if_splits)

lemma collected_origin:
  assumes "b \<in> set (fst (collect_bottlenecks fs pid ti))"
  shows "\<exists>p planet a. (p, planet) \<in> set (planets fs) \<and> a \<in> set (assemblers planet)
           \<and> finding_of a planet ti = Some b"
  using assms
  by (fastforce simp: collect_bottlenecks_eq selected_planets_def planet_findings_def
        List.map_filter_def)

lemma rows_of_report:
  "br_bottlenecks (BottleneckAnalyzer_analyze fs pid ti tw incl) =
     map bottleneck_to_row (take 10 (sorted_bottlenecks fs pid ti))"
  by (simp add: BottleneckAnalyzer_analyze_def Let_def)


lemma sorted_bottlenecks_member:
  assumes "b \<in> set (sorted_bottlenecks fs pid ti)"
  shows "\<exists>p planet a. (p, planet) \<in> set (planets fs) \<and> a \<in> set (assemblers planet)
           \<and> finding_of a planet ti = Some b"
  using assms collected_origin
  by (simp add: sorted_bottlenecks_def set_sort_reverse)

lemma in_take_sort_reverse: "x \<in> set (take n (sort_reverse k xs)) \<Longrightarrow> x \<in> set xs"
  using in_set_takeD [of x n "sort_reverse k xs"] by (simp add: set_sort_reverse)

lemma collect_is_all_findings:
  "fst (collect_bottlenecks fs pid ti) = all_findings fs pid ti"
  by (simp add: collect_bottlenecks_eq planet_findings_def all_findings_def)

lemma report_rows_eq:
  "br_bottlenecks (BottleneckAnalyzer_analyze fs pid ti tw incl) =
     map bottleneck_to_row (take 10 (sort_reverse severity (all_findings fs pid ti)))"
  by (simp add: rows_of_report sorted_bottlenecks_def collect_is_all_findings)

lemma report_found_eq:
  "br_bottlenecks_found (BottleneckAnalyzer_analyze fs pid ti tw incl) =
     length (all_findings fs pid ti)"
  by (simp add: BottleneckAnalyzer_analyze_def Let_def sorted_bottlenecks_def
      length_sort_reverse collect_is_all_findings)

lemma all_findings_origin:
  assumes "b \<in> set (all_findings fs pid ti)"
  shows "\<exists>p planet a. (p, planet) \<in> set (selected_planets fs pid) \<and> a \<in> set (assemblers planet)
           \<and> finding_of a planet ti = Some b"
  using assms
  by (fastforce simp: all_findings_def List.map_filter_def)


lemma example_findings:
  "all_findings example_factory None None =
     [the (analyze_assembler (mk_AssemblerMetrics 1 7 40 100 True False) (new_PlanetState 1\<lparr>assemblers := example_assemblers\<rparr>) None),
      the (analyze_assembler (mk_AssemblerMetrics 3 7 20 100 False True) (new_PlanetState 1\<lparr>assemblers := example_assemblers\<rparr>) None),
      the (analyze_assembler (mk_AssemblerMetrics 5 7 40 100 True True) (new_PlanetState 1\<lparr>assemblers := example_assemblers\<rparr>) None)]"
  by (simp add: all_findings_def selected_planets_def example_factory_def skipped_def
      finding_of_def new_PlanetState_def example_assemblers_def
      mk_AssemblerMetrics_def analyze_assembler_def)


subsection \<open>The logistics loops\<close>

lemma belts_loop_eq:
  "belts_loop bs pid f thr (sat, near) =
     (sat @ map (saturated_row pid)
              (filter (is_saturated thr) (filter (\<lambda>belt. \<not> filtered_out f belt) bs)),
      near @ map (near_row pid)
               (filter (is_near thr) (filter (\<lambda>belt. \<not> filtered_out f belt) bs)))"
  by (induction bs arbitrary: sat near)
     (auto simp: saturated_row_def near_row_def is_saturated_def is_near_def)

lemma logistics_planets_loop_eq:
  "logistics_planets_loop ps pidf f thr (sat, near) =
     (sat @ concat (map (\<lambda>(p, planet). map (saturated_row p)
                      (filter (is_saturated thr)
                         (filter (\<lambda>belt. \<not> filtered_out f belt) (belts planet))))
                    (filter (\<lambda>(p, planet). \<not> skipped pidf p) ps)),
      near @ concat (map (\<lambda>(p, planet). map (near_row p)
                      (filter (is_near thr)
                         (filter (\<lambda>belt. \<not> filtered_out f belt) (belts planet))))
                    (filter (\<lambda>(p, planet). \<not> skipped pidf p) ps)))"
  by (induction ps arbitrary: sat near) (auto simp: belts_loop_eq)

lemma map_filter_selected:
  "map (\<lambda>(p, belt). g p belt)
     (filter (\<lambda>(p, belt). P belt)
        (concat (map (\<lambda>(p, planet). map (Pair p) (h planet)) ps))) =
   concat (map (\<lambda>(p, planet). map (g p) (filter P (h planet))) ps)"
  by (induction ps) (auto simp: filter_map comp_def)

lemma classify_belts_eq:
  "classify_belts fs pidf f thr =
     (map (\<lambda>(p, belt). saturated_row p belt)
          (filter (\<lambda>(p, belt). is_saturated thr belt) (selected_belts fs pidf f)),
      map (\<lambda>(p, belt). near_row p belt)
          (filter (\<lambda>(p, belt). is_near thr belt) (selected_belts fs pidf f)))"
  by (simp add: classify_belts_def logistics_planets_loop_eq selected_belts_def
      selected_planets_def map_filter_selected)

lemma classify_belts_status:
  "row \<in> set (fst (classify_belts fs pidf f thr)) \<Longrightarrow> bd_status row = Some ''saturated''"
  "row \<in> set (snd (classify_belts fs pidf f thr)) \<Longrightarrow> bd_status row = Some ''near_saturation''"
  by (auto simp: classify_belts_eq saturated_row_def near_row_def)

lemma logistics_lists:
  "lg_saturated_belts (LogisticsAnalyzer_analyze fs pidf f thr) =
     take 20 (sort_reverse bd_saturation (fst (classify_belts fs pidf f thr)))"
  "lg_near_saturation (LogisticsAnalyzer_analyze fs pidf f thr) =
     take 10 (sort_reverse bd_saturation (snd (classify_belts fs pidf f thr)))"
  by (simp_all add: LogisticsAnalyzer_analyze_def Let_def)

lemma filtered_out_empty: "filtered_out (Some []) belt = filtered_out None belt"
  by (simp add: filtered_out_def)

lemma logistics_planets_loop_empty_filter:
  "logistics_planets_loop ps pidf (Some []) thr st = logistics_planets_loop ps pidf None thr st"
  by (cases st) (simp add: logistics_planets_loop_eq filtered_out_empty)

lemmas logistics_eval =
  LogisticsAnalyzer_analyze_def classify_belts_def new_PlanetState_def mk_BeltMetrics_def
  skipped_def filtered_out_def belt_data_def sort_reverse_def upgrade_recommendation_def
  detect_tier_def logistics_global_recommendations_def

subsection \<open>Doubles\<close>

lemma fl_scaled_int:
  assumes "x = of_int m * pow2 k" and "k = float_exponent \<bar>x\<bar> - 52"
  shows "fl x = x"
proof -
  have d: "x / pow2 k = of_int m"
    using assms(1) pow2_pos [of k] by simp
  have "fl x = of_int (round_half_even (x / pow2 k)) * pow2 k"
    unfolding fl_def Let_def assms(2) ..
  also have "\<dots> = of_int m * pow2 k"
    unfolding d round_half_even_of_int ..
  finally show ?thesis using assms(1) by simp
qed

text \<open>The integers up to \<open>2 ^ 53\<close> in magnitude are doubles.\<close>

lemma fl_of_int:
  assumes "\<bar>n\<bar> \<le> 2 ^ 53"
  shows "fl (of_int n) = of_int n"
proof (cases "n = 0")
  case True
  then show ?thesis by (simp add: fl_def Let_def round_half_even_def)
next
  case False
  let ?x = "of_int n :: real"
  let ?e = "float_exponent \<bar>?x\<bar>"
  from False have "1 \<le> \<bar>n\<bar>" by arith
  then have "(1::real) \<le> of_int \<bar>n\<bar>" by (simp only: of_int_1_le_iff)
  then have one: "1 \<le> \<bar>?x\<bar>" by simp
  from float_exponent_lower [OF one] have lo: "pow2 ?e \<le> \<bar>?x\<bar>" and e0: "0 \<le> ?e"
    by simp_all
  from assms have "(of_int \<bar>n\<bar> :: real) \<le> of_int (2 ^ 53)" by (simp only: of_int_le_iff)
  then have hi: "\<bar>?x\<bar> \<le> 2 ^ 53" by simp
  have "pow2 ?e \<le> pow2 53" using lo hi by (simp add: pow2_def)
  then have e53: "?e \<le> 53"
    using pow2_less_iff [of 53 ?e] by (simp add: not_less [symmetric])
  show ?thesis
  proof (cases "?e \<le> 52")
    case True
    define j where "j = nat (52 - ?e)"
    have k: "?e - 52 = - int j" using True by (simp add: j_def)
    have "pow2 (?e - 52) = 1 / 2 ^ j"
      unfolding k by (rule pow2_neg_nat)
    then have "?x = of_int (n * 2 ^ j) * pow2 (?e - 52)"
      by simp
    then show ?thesis by (rule fl_scaled_int) simp
  next
    case False
    with e53 have e: "?e = 53" by simp
    with lo hi have "\<bar>?x\<bar> = 2 ^ 53" by (simp add: pow2_def)
    then have "(of_int \<bar>n\<bar> :: real) = of_int (2 ^ 53)" by simp
    then have "\<bar>n\<bar> = 2 ^ 53" by (simp only: of_int_eq_iff)
    then have "n = 2 ^ 53 \<or> n = - (2 ^ 53)" by arith
    then have "n = 2 * (n div 2)" by auto
    then obtain m where m: "n = 2 * m" ..
    have "pow2 (?e - 52) = 2" by (simp add: e pow2_def)
    then have "?x = of_int m * pow2 (?e - 52)" by (simp add: m)
    then show ?thesis by (rule fl_scaled_int) simp
  qed
qed

lemma fl_Ints: "x \<in> \<int> \<Longrightarrow> \<bar>x\<bar> \<le> 2 ^ 53 \<Longrightarrow> fl x = x"
proof -
  assume "x \<in> \<int>" and b: "\<bar>x\<bar> \<le> 2 ^ 53"
  then obtain n where n: "x = of_int n" by (auto elim: Ints_cases)
  from b have "(of_int \<bar>n\<bar> :: real) \<le> of_int (2 ^ 53)" by (simp add: n)
  then have "\<bar>n\<bar> \<le> 2 ^ 53" by (simp only: of_int_le_iff)
  then show ?thesis unfolding n by (rule fl_of_int)
qed

lemma py_round_Ints: "x \<in> \<int> \<Longrightarrow> \<bar>x\<bar> \<le> 2 ^ 53 \<Longrightarrow> py_round x n = x"
proof -
  assume x: "x \<in> \<int>" and b: "\<bar>x\<bar> \<le> 2 ^ 53"
  then obtain m where m: "x = of_int m" by (auto elim: Ints_cases)
  have "x * 10 ^ n = of_int (m * 10 ^ n)" by (simp add: m)
  then have "round_half_even (x * 10 ^ n) = m * 10 ^ n"
    by (simp only: round_half_even_of_int)
  then have "py_round x n = fl x" by (simp add: py_round_def decimal_round_def m)
  with fl_Ints [OF x b] show ?thesis by simp
qed

subsection \<open>The power loop\<close>

lemma power_planets_loop_eq:
  "power_planets_loop ps pidf incl v =
     (let pp = concat (map (\<lambda>(pid, planet).
                              case power planet of None \<Rightarrow> [] | Some pw \<Rightarrow> [(pid, planet, pw)])
                           (filter (\<lambda>(p, planet). \<not> skipped pidf p) ps))
      in \<lparr>planets_data =
            planets_data v @ map (\<lambda>(p, planet, pw). power_planet_data p planet pw incl) pp,
          total_generation =
            foldl (\<lambda>a x. fl (a + x)) (total_generation v)
              (map (\<lambda>(p, planet, pw). generation_mw pw) pp),
          total_consumption =
            foldl (\<lambda>a x. fl (a + x)) (total_consumption v)
              (map (\<lambda>(p, planet, pw). consumption_mw pw) pp),
          deficits_found =
            deficits_found v + length (filter (\<lambda>(p, planet, pw). surplus_mw pw < 0) pp)\<rparr>)"
  by (induction ps arbitrary: v) (auto simp: Let_def split: option.splits)

lemma power_loop_result:
  "power_planets_loop (planets fs) pidf incl power_vars_init =
     \<lparr>planets_data =
        map (\<lambda>(p, planet, pw). power_planet_data p planet pw incl) (powered_planets fs pidf),
      total_generation = sum_generation fs pidf,
      total_consumption = sum_consumption fs pidf,
      deficits_found =
        length (filter (\<lambda>(p, planet, pw). surplus_mw pw < 0) (powered_planets fs pidf))\<rparr>"
  by (simp add: power_planets_loop_eq Let_def power_vars_init_def powered_planets_def
      selected_planets_def sum_generation_def sum_consumption_def float_sum_def)

lemma power_summary_eq:
  "pw_summary (PowerAnalyzer_analyze fs pidf incl) =
     \<lparr>total_generation_mw = py_round (sum_generation fs pidf) 2,
      total_consumption_mw = py_round (sum_consumption fs pidf) 2,
      net_surplus_mw = py_round (fl (sum_generation fs pidf - sum_consumption fs pidf)) 2,
      planets_with_deficit =
        length (filter (\<lambda>(p, planet, pw). surplus_mw pw < 0) (powered_planets fs pidf))\<rparr>"
  by (simp add: PowerAnalyzer_analyze_def Let_def power_loop_result)

lemma power_rows_eq:
  "pw_planets (PowerAnalyzer_analyze fs pidf incl) =
     map (\<lambda>(p, planet, pw). power_planet_data p planet pw incl) (powered_planets fs pidf)"
  by (simp add: PowerAnalyzer_analyze_def Let_def power_loop_result)

lemma generate_recommendation_tiers:
  "\<bar>surplus_mw pw\<bar> < 10 \<Longrightarrow>
     generate_recommendation pw =
       [Lit ''Minor deficit of '', F1 \<bar>surplus_mw pw\<bar>, Lit ''MW - add 1 thermal plant'']"
  "10 \<le> \<bar>surplus_mw pw\<bar> \<Longrightarrow> \<bar>surplus_mw pw\<bar> < 50 \<Longrightarrow>
     generate_recommendation pw =
       [Lit ''Deficit of '', F1 \<bar>surplus_mw pw\<bar>, Lit ''MW - add '',
        D (\<lfloor>\<bar>surplus_mw pw\<bar> / 15\<rfloor> + 1), Lit '' fusion plants'']"
  "50 \<le> \<bar>surplus_mw pw\<bar> \<Longrightarrow>
     generate_recommendation pw =
       [Lit ''Major deficit of '', F1 \<bar>surplus_mw pw\<bar>,
        Lit ''MW - consider artificial sun or ray receivers'']"
  by (simp_all add: generate_recommendation_def Let_def int_of_float_def)

lemmas power_eval =
  PowerAnalyzer_analyze_def power_vars_init_def new_PlanetState_def mk_PowerMetrics_def
  skipped_def power_planet_data_def generate_recommendation_def int_of_float_def
  power_global_recommendations_def

subsection \<open>Sums of doubles\<close>

lemma float_sum_exact:
  assumes "a \<in> \<int>" and "list_all (\<lambda>x. x \<in> \<int>) xs"
    and "\<bar>a\<bar> + sum_list (map abs xs) \<le> 2 ^ 53"
  shows "foldl (\<lambda>a x. fl (a + x)) a xs = a + sum_list xs"
  using assms
proof (induction xs arbitrary: a)
  case Nil
  show ?case by simp
next
  case (Cons x xs)
  have nonneg: "0 \<le> sum_list (map abs xs)"
    by (rule sum_list_nonneg) auto
  from Cons.prems have ax: "a + x \<in> \<int>" by simp
  from Cons.prems nonneg have "\<bar>a + x\<bar> \<le> 2 ^ 53" by simp
  with ax have e: "fl (a + x) = a + x" by (rule fl_Ints)
  from Cons.prems have "\<bar>a + x\<bar> + sum_list (map abs xs) \<le> 2 ^ 53" by simp
  with Cons.IH [of "a + x"] ax Cons.prems(2)
  have "foldl (\<lambda>a x. fl (a + x)) (a + x) xs = a + x + sum_list xs" by simp
  then show ?case by (simp add: e)
qed

lemma sum_list_Ints: "list_all (\<lambda>x. x \<in> \<int>) xs \<Longrightarrow> sum_list xs \<in> \<int>"
  by (induction xs) auto

lemma abs_sum_list_le: "\<bar>sum_list xs\<bar> \<le> sum_list (map abs xs)" for xs :: "real list"
  by (induction xs) auto

subsection \<open>Frames\<close>




subsection \<open>The server\<close>

lemma parse_file_dsv_env: "parse_file dsv_env path = Inr (from_save_data 0)"
  by (simp add: parse_file_def dsv_env_def py_lower_def)

lemma on_exception_sections:
  "result_production (on_exception e) = None"
  "result_power (on_exception e) = None"
  "result_logistics (on_exception e) = None"
  by (simp_all add: on_exception_def)

lemma load_save_analysis_with_full:
  "analysis_type \<notin> {''production'', ''power'', ''logistics''} \<Longrightarrow>
     load_save_analysis_with ba pa la env path analysis_type =
       (case parse_file env path of
          Inl e \<Rightarrow> on_exception e
        | Inr fs \<Rightarrow>
            (case ba fs of
               Inl e \<Rightarrow> on_exception e
             | Inr b \<Rightarrow>
                 (case pa fs of
                    Inl e \<Rightarrow> on_exception e
                  | Inr p \<Rightarrow>
                      (case la fs of
                         Inl e \<Rightarrow> on_exception e
                       | Inr l \<Rightarrow> Full_report b p l))))"
  by (cases "parse_file env path") (simp_all add: load_save_analysis_with_def)

lemma full_is_other: "''full'' \<notin> {''production'', ''power'', ''logistics''}"
  by simp

subsection \<open>The summary of the power report\<close>

lemma decimal_round_error: "\<bar>decimal_round x n - x\<bar> \<le> 1 / (2 * 10 ^ n)"
proof -
  have "decimal_round x n - x = (of_int (round_half_even (x * 10 ^ n)) - x * 10 ^ n) / 10 ^ n"
    by (simp add: decimal_round_def diff_divide_distrib)
  then have "\<bar>decimal_round x n - x\<bar> = \<bar>of_int (round_half_even (x * 10 ^ n)) - x * 10 ^ n\<bar> / 10 ^ n"
    by simp
  also have "\<dots> \<le> (1 / 2) / 10 ^ n"
    by (rule divide_right_mono [OF round_half_even_error]) simp
  finally show ?thesis by simp
qed

lemma fl_near_abs: "\<bar>fl y - y\<bar> \<le> (\<bar>y\<bar> + 1) / 2 ^ 53"
proof -
  have "max \<bar>y\<bar> 1 \<le> \<bar>y\<bar> + 1" by simp
  then have "max \<bar>y\<bar> 1 / 2 ^ 53 \<le> (\<bar>y\<bar> + 1) / 2 ^ 53"
    by (rule divide_right_mono) simp
  with fl_error_rel [of y] show ?thesis by linarith
qed

lemma py_round_near: "\<bar>py_round x 2 - x\<bar> \<le> 1 / 200 + (\<bar>x\<bar> + 2) / 2 ^ 53"
proof -
  define r where "r = decimal_round x 2"
  have a: "\<bar>r - x\<bar> \<le> 1 / 200"
    using decimal_round_error [of x 2] by (simp add: r_def)
  then have "\<bar>r\<bar> + 1 \<le> \<bar>x\<bar> + 2" by linarith
  then have "(\<bar>r\<bar> + 1) / 2 ^ 53 \<le> (\<bar>x\<bar> + 2) / 2 ^ 53"
    by (rule divide_right_mono) simp
  with fl_near_abs [of r] have "\<bar>fl r - r\<bar> \<le> (\<bar>x\<bar> + 2) / 2 ^ 53" by linarith
  with a have "\<bar>fl r - x\<bar> \<le> 1 / 200 + (\<bar>x\<bar> + 2) / 2 ^ 53" by linarith
  then show ?thesis by (simp add: py_round_def r_def)
qed

lemma bound_chain:
  "x \<le> a + b \<Longrightarrow> a \<le> t \<Longrightarrow> b \<le> s \<Longrightarrow> t \<le> s + 1 \<Longrightarrow> 0 \<le> s \<Longrightarrow> x \<le> 2 * s + 1"
  for x :: real
  by linarith

lemma bound_sum:
  "x \<le> a + b + p + q \<Longrightarrow> a \<le> 1 / 200 + t2 \<Longrightarrow> b \<le> t1 \<Longrightarrow> p \<le> 1 / 200 + t3
     \<Longrightarrow> q \<le> 1 / 200 + t4 \<Longrightarrow> x \<le> 3 / 200 + (t1 + t2 + t3 + t4)"
  for x :: real
  by linarith

lemma rounded_difference_near:
  "\<bar>py_round (fl (G - C)) 2 - (py_round G 2 - py_round C 2)\<bar>
     \<le> 3 / 200 + (\<bar>G\<bar> + \<bar>C\<bar> + 2) / 2 ^ 51"
proof -
  define g where "g = \<bar>G\<bar>"
  define c where "c = \<bar>C\<bar>"
  define D where "D = fl (G - C)"
  define t1 where "t1 = (g + c + 1) / 2 ^ 53"
  define t2 where "t2 = (2 * (g + c) + 3) / 2 ^ 53"
  define t3 where "t3 = (g + 2) / 2 ^ 53"
  define t4 where "t4 = (c + 2) / 2 ^ 53"
  have gc: "0 \<le> g" "0 \<le> c" by (simp_all add: g_def c_def)
  have a: "\<bar>G - C\<bar> \<le> g + c" by (simp add: g_def c_def)
  then have "(\<bar>G - C\<bar> + 1) / 2 ^ 53 \<le> t1"
    unfolding t1_def by (intro divide_right_mono) simp_all
  with fl_near_abs [of "G - C"] have d1: "\<bar>D - (G - C)\<bar> \<le> t1"
    by (simp add: D_def)
  have "t1 \<le> (g + c + 1) / 1"
    unfolding t1_def using gc by (intro divide_left_mono) simp_all
  then have "t1 \<le> g + c + 1" by simp
  have tri: "\<bar>D\<bar> \<le> \<bar>D - (G - C)\<bar> + \<bar>G - C\<bar>" by linarith
  have dabs: "\<bar>D\<bar> \<le> 2 * (g + c) + 1"
    by (rule bound_chain [OF tri d1 a \<open>t1 \<le> g + c + 1\<close>]) (simp add: gc)
  then have "(\<bar>D\<bar> + 2) / 2 ^ 53 \<le> t2"
    unfolding t2_def by (intro divide_right_mono) simp_all
  with py_round_near [of D] have n1: "\<bar>py_round D 2 - D\<bar> \<le> 1 / 200 + t2"
    by linarith
  from py_round_near [of G] have n2: "\<bar>py_round G 2 - G\<bar> \<le> 1 / 200 + t3"
    by (simp add: t3_def g_def)
  from py_round_near [of C] have n3: "\<bar>py_round C 2 - C\<bar> \<le> 1 / 200 + t4"
    by (simp add: t4_def c_def)
  have s: "t1 + t2 + t3 + t4 = (g + c + 2) / 2 ^ 51"
    by (simp add: t1_def t2_def t3_def t4_def field_simps)
  have "\<bar>py_round D 2 - (py_round G 2 - py_round C 2)\<bar>
          \<le> \<bar>py_round D 2 - D\<bar> + \<bar>D - (G - C)\<bar> + \<bar>py_round G 2 - G\<bar> + \<bar>py_round C 2 - C\<bar>"
    by linarith
  then have "\<bar>py_round D 2 - (py_round G 2 - py_round C 2)\<bar> \<le> 3 / 200 + (t1 + t2 + t3 + t4)"
    using n1 d1 n2 n3 by (rule bound_sum)
  then show ?thesis
    by (simp only: s) (simp add: D_def g_def c_def)
qed

lemma sum_list_abs_split:
  "sum_list (map (\<lambda>(pid, planet, pw). \<bar>generation_mw pw\<bar> + \<bar>consumption_mw pw\<bar>) xs) =
     sum_list (map abs (map (\<lambda>(pid, planet, pw). generation_mw pw) xs))
     + sum_list (map abs (map (\<lambda>(pid, planet, pw). consumption_mw pw) xs))"
  by (induction xs) auto

lemma whole_megawatts_exact:
  assumes "whole_megawatts fs pidf"
  shows "sum_generation fs pidf =
           sum_list (map (\<lambda>(pid, planet, pw). generation_mw pw) (powered_planets fs pidf))"
    and "sum_consumption fs pidf =
           sum_list (map (\<lambda>(pid, planet, pw). consumption_mw pw) (powered_planets fs pidf))"
    and "py_round (sum_generation fs pidf) 2 = sum_generation fs pidf"
    and "py_round (sum_consumption fs pidf) 2 = sum_consumption fs pidf"
    and "py_round (fl (sum_generation fs pidf - sum_consumption fs pidf)) 2 =
           sum_generation fs pidf - sum_consumption fs pidf"
proof -
  let ?pp = "powered_planets fs pidf"
  let ?gs = "map (\<lambda>(pid, planet, pw). generation_mw pw) ?pp"
  let ?cs = "map (\<lambda>(pid, planet, pw). consumption_mw pw) ?pp"
  from assms have ig: "list_all (\<lambda>x. x \<in> \<int>) ?gs" and ic: "list_all (\<lambda>x. x \<in> \<int>) ?cs"
    by (auto simp: whole_megawatts_def list_all_iff)
  have "sum_list (map (\<lambda>(pid, planet, pw). \<bar>generation_mw pw\<bar> + \<bar>consumption_mw pw\<bar>) ?pp) =
          sum_list (map abs ?gs) + sum_list (map abs ?cs)"
    by (rule sum_list_abs_split)
  with assms have tot: "sum_list (map abs ?gs) + sum_list (map abs ?cs) \<le> 2 ^ 53"
    by (simp add: whole_megawatts_def)
  have ng: "0 \<le> sum_list (map abs ?gs)" and nc: "0 \<le> sum_list (map abs ?cs)"
    by (rule sum_list_nonneg, auto)+
  from tot ng nc have bg: "\<bar>0::real\<bar> + sum_list (map abs ?gs) \<le> 2 ^ 53"
    and bc: "\<bar>0::real\<bar> + sum_list (map abs ?cs) \<le> 2 ^ 53"
    by simp_all
  have z: "(0::real) \<in> \<int>" by simp
  from float_sum_exact [OF z ig bg] show g: "sum_generation fs pidf = sum_list ?gs"
    by (simp add: sum_generation_def float_sum_def)
  from float_sum_exact [OF z ic bc] show c: "sum_consumption fs pidf = sum_list ?cs"
    by (simp add: sum_consumption_def float_sum_def)
  have gi: "sum_generation fs pidf \<in> \<int>" unfolding g using ig by (rule sum_list_Ints)
  have ci: "sum_consumption fs pidf \<in> \<int>" unfolding c using ic by (rule sum_list_Ints)
  have ga: "\<bar>sum_generation fs pidf\<bar> \<le> sum_list (map abs ?gs)"
    unfolding g by (rule abs_sum_list_le)
  have ca: "\<bar>sum_consumption fs pidf\<bar> \<le> sum_list (map abs ?cs)"
    unfolding c by (rule abs_sum_list_le)
  from ga tot nc have "\<bar>sum_generation fs pidf\<bar> \<le> 2 ^ 53" by linarith
  with gi show "py_round (sum_generation fs pidf) 2 = sum_generation fs pidf"
    by (rule py_round_Ints)
  from ca tot ng have "\<bar>sum_consumption fs pidf\<bar> \<le> 2 ^ 53" by linarith
  with ci show "py_round (sum_consumption fs pidf) 2 = sum_consumption fs pidf"
    by (rule py_round_Ints)
  from gi ci have di: "sum_generation fs pidf - sum_consumption fs pidf \<in> \<int>" by simp
  from ga ca tot have da: "\<bar>sum_generation fs pidf - sum_consumption fs pidf\<bar> \<le> 2 ^ 53"
    by linarith
  from fl_Ints [OF di da] py_round_Ints [OF di da]
  show "py_round (fl (sum_generation fs pidf - sum_consumption fs pidf)) 2 =
           sum_generation fs pidf - sum_consumption fs pidf"
    by simp
qed

lemma milliwatt_sums:
  "float_sum [1 / 128] = 1 / 128" "float_sum [15 / 1024] = 15 / 1024"
  by code_simp+

lemma milliwatt_rounds:
  "py_round (1 / 128) 2 = 5764607523034235 / 576460752303423488"
  "py_round (15 / 1024) 2 = 5764607523034235 / 576460752303423488"
  "py_round (fl (- (7 / 1024))) 2 = - (5764607523034235 / 576460752303423488)"
  by code_simp+

section \<open>The properties\<close>

text \<open>
  C1, as amended. In a \<open>full\<close> analysis (any type other than the three named ones) of a
  save that parses, the first analyzer that raises, in the order production, power,
  logistics, decides the result: the call returns the one error value built from that
  exception, and the value has no \<open>production\<close>, \<open>power\<close> or \<open>logistics\<close> section,
  so the results of the analyses that succeeded are not returned. The three sections are
  returned when all three analyzers succeed.
\<close>

theorem load_save_analysis_full_fault:
  "parse_file env path = Inr fs \<and> analysis_type \<notin> {''production'', ''power'', ''logistics''}
   \<longrightarrow>
     (\<forall>e. ba fs = Inl e \<longrightarrow>
        load_save_analysis_with ba pa la env path analysis_type = on_exception e)
   \<and> (\<forall>b e. ba fs = Inr b \<and> pa fs = Inl e \<longrightarrow>
        load_save_analysis_with ba pa la env path analysis_type = on_exception e)
   \<and> (\<forall>b p e. ba fs = Inr b \<and> pa fs = Inr p \<and> la fs = Inl e \<longrightarrow>
        load_save_analysis_with ba pa la env path analysis_type = on_exception e)
   \<and> (\<forall>b p l. ba fs = Inr b \<and> pa fs = Inr p \<and> la fs = Inr l \<longrightarrow>
        load_save_analysis_with ba pa la env path analysis_type = Full_report b p l)
   \<and> (\<forall>e. result_production (on_exception e) = None
          \<and> result_power (on_exception e) = None
          \<and> result_logistics (on_exception e) = None)"
proof (intro impI)
  assume a: "parse_file env path = Inr fs
             \<and> analysis_type \<notin> {''production'', ''power'', ''logistics''}"
  then have r: "load_save_analysis_with ba pa la env path analysis_type =
       (case ba fs of
          Inl e \<Rightarrow> on_exception e
        | Inr b \<Rightarrow>
            (case pa fs of
               Inl e \<Rightarrow> on_exception e
             | Inr p \<Rightarrow>
                 (case la fs of
                    Inl e \<Rightarrow> on_exception e
                  | Inr l \<Rightarrow> Full_report b p l)))"
    by (simp add: load_save_analysis_with_full)
  show "(\<forall>e. ba fs = Inl e \<longrightarrow>
        load_save_analysis_with ba pa la env path analysis_type = on_exception e)
   \<and> (\<forall>b e. ba fs = Inr b \<and> pa fs = Inl e \<longrightarrow>
        load_save_analysis_with ba pa la env path analysis_type = on_exception e)
   \<and> (\<forall>b p e. ba fs = Inr b \<and> pa fs = Inr p \<and> la fs = Inl e \<longrightarrow>
        load_save_analysis_with ba pa la env path analysis_type = on_exception e)
   \<and> (\<forall>b p l. ba fs = Inr b \<and> pa fs = Inr p \<and> la fs = Inr l \<longrightarrow>
        load_save_analysis_with ba pa la env path analysis_type = Full_report b p l)
   \<and> (\<forall>e. result_production (on_exception e) = None
          \<and> result_power (on_exception e) = None
          \<and> result_logistics (on_exception e) = None)"
    unfolding r by (simp add: on_exception_sections)
qed

text \<open>
  The theorem on a save that parses, with a power analyzer that raises between two
  analyzers that succeed: the call returns the \<open>parse_failed\<close> error.
\<close>

theorem load_save_analysis_full_fault_witness:
  "load_save_analysis_with ok_bottleneck faulty ok_logistics dsv_env ''save.dsv'' ''full'' =
     Error_result ''parse_failed'' ''internal fault''"
proof -
  have p: "parse_file dsv_env ''save.dsv'' = Inr (from_save_data 0)"
    by (rule parse_file_dsv_env)
  have b: "ok_bottleneck (from_save_data 0) =
             Inr (BottleneckAnalyzer_analyze (from_save_data 0) None None 60 True)"
    by (simp add: ok_bottleneck_def)
  have f: "faulty (from_save_data 0) = (Inl (Exception ''internal fault'') :: py_error + power_report)"
    by (simp add: faulty_def)
  from load_save_analysis_full_fault
         [of dsv_env "''save.dsv''" "from_save_data 0" "''full''" ok_bottleneck faulty ok_logistics]
       p full_is_other b f
  have "load_save_analysis_with ok_bottleneck faulty ok_logistics dsv_env ''save.dsv'' ''full'' =
          on_exception (Exception ''internal fault'')"
    by blast
  then show ?thesis by (simp add: on_exception_def)
qed

text \<open>
  C1 as stated fails: when the bottleneck and power analyzers succeed and the logistics
  analyzer raises, the \<open>full\<close> analysis returns the \<open>parse_failed\<close> error, without the
  production and power results.
\<close>

theorem load_save_analysis_partial_counterexample:
  "load_save_analysis_with ok_bottleneck ok_power faulty dsv_env ''save.dsv'' ''full'' =
     Error_result ''parse_failed'' ''internal fault''
   \<and> result_production
       (load_save_analysis_with ok_bottleneck ok_power faulty dsv_env ''save.dsv'' ''full'') = None
   \<and> result_power
       (load_save_analysis_with ok_bottleneck ok_power faulty dsv_env ''save.dsv'' ''full'') = None"
  by (simp add: load_save_analysis_with_def parse_file_dsv_env ok_bottleneck_def ok_power_def
      faulty_def on_exception_def)




text \<open>
  C4. The findings collected by the loops are, planet by selected planet and assembler
  by assembler, the findings of the single assemblers; the report counts them all, and
  its rows are the first ten of them in the sorted order, each row carrying the type of
  its finding. An assembler has a finding exactly when its efficiency is below 90 and
  one of its two flags is set; the finding's type is \<open>input_starvation\<close> when
  \<open>input_starved\<close> is set and \<open>output_blocked\<close> otherwise. So an efficiency below 90
  with neither flag, and an efficiency of 90 or more, give no finding; and every row of
  the report is that of an assembler of a selected planet with an efficiency below 90
  and a flag set, with the type that this assembler's flags give.
\<close>

theorem bottleneck_findings_classified:
  "fst (collect_bottlenecks fs pid ti) =
     concat (map (\<lambda>(p, planet). List.map_filter (\<lambda>a. finding_of a planet ti) (assemblers planet))
                 (selected_planets fs pid))
   \<and> br_bottlenecks_found (BottleneckAnalyzer_analyze fs pid ti tw incl) =
       length (all_findings fs pid ti)
   \<and> br_bottlenecks (BottleneckAnalyzer_analyze fs pid ti tw incl) =
       map bottleneck_to_row (take 10 (sort_reverse severity (all_findings fs pid ti)))
   \<and> row_type (bottleneck_to_row b) = bottleneck_type b
   \<and> (finding_of a planet ti \<noteq> None) =
       (efficiency a < 90 \<and> (input_starved a \<or> output_blocked a))
   \<and> (\<forall>b. finding_of a planet ti = Some b \<longrightarrow>
          bottleneck_type b = (if input_starved a then ''input_starvation'' else ''output_blocked''))
   \<and> (\<forall>row \<in> set (br_bottlenecks (BottleneckAnalyzer_analyze fs pid ti tw incl)).
         \<exists>p planet a. (p, planet) \<in> set (selected_planets fs pid) \<and> a \<in> set (assemblers planet)
           \<and> efficiency a < 90 \<and> (input_starved a \<or> output_blocked a)
           \<and> row_type row = (if input_starved a then ''input_starvation'' else ''output_blocked''))"
proof -
  let ?rows = "br_bottlenecks (BottleneckAnalyzer_analyze fs pid ti tw incl)"
  have 1: "fst (collect_bottlenecks fs pid ti) =
     concat (map (\<lambda>(p, planet). List.map_filter (\<lambda>a. finding_of a planet ti) (assemblers planet))
                 (selected_planets fs pid))"
    by (simp add: collect_bottlenecks_eq planet_findings_def)
  have 2: "br_bottlenecks_found (BottleneckAnalyzer_analyze fs pid ti tw incl) =
       length (all_findings fs pid ti)"
    by (rule report_found_eq)
  have 3: "?rows = map bottleneck_to_row (take 10 (sort_reverse severity (all_findings fs pid ti)))"
    by (rule report_rows_eq)
  have 4: "row_type (bottleneck_to_row b) = bottleneck_type b"
    by (simp add: bottleneck_to_row_def)
  have 5: "(finding_of a planet ti \<noteq> None) =
       (efficiency a < 90 \<and> (input_starved a \<or> output_blocked a))"
    by (rule finding_of_Some_iff)
  have 6: "\<forall>b. finding_of a planet ti = Some b \<longrightarrow>
          bottleneck_type b = (if input_starved a then ''input_starvation'' else ''output_blocked'')"
    using finding_of_type by blast
  have 7: "\<exists>p planet a. (p, planet) \<in> set (selected_planets fs pid) \<and> a \<in> set (assemblers planet)
           \<and> efficiency a < 90 \<and> (input_starved a \<or> output_blocked a)
           \<and> row_type row = (if input_starved a then ''input_starvation'' else ''output_blocked'')"
    if "row \<in> set ?rows" for row
  proof -
    from that obtain f where f: "f \<in> set (all_findings fs pid ti)" "row = bottleneck_to_row f"
      unfolding 3 by (auto dest: in_take_sort_reverse)
    from all_findings_origin [OF f(1)] obtain p planet a
      where a: "(p, planet) \<in> set (selected_planets fs pid)" "a \<in> set (assemblers planet)"
        "finding_of a planet ti = Some f" by blast
    from a(3) have "finding_of a planet ti \<noteq> None" by simp
    with finding_of_Some_iff [of a planet ti]
    have e: "efficiency a < 90 \<and> (input_starved a \<or> output_blocked a)"
      by blast
    from finding_of_type [OF a(3)]
    have "row_type row = (if input_starved a then ''input_starvation'' else ''output_blocked'')"
      by (simp add: f(2) bottleneck_to_row_def)
    with a(1,2) e show ?thesis by blast
  qed
  from 1 2 3 4 5 6 7 show ?thesis by blast
qed

text \<open>
  The theorem on the example factory, whose five assemblers have the efficiencies 40,
  95, 20, 50 and 40: the analyzer counts three findings and reports them as
  \<open>output_blocked\<close> (severity 80), \<open>input_starvation\<close> and \<open>input_starvation\<close>
  (severity 60 each); the assembler at 95 and the one at 50 without a flag give none.
\<close>

theorem bottleneck_findings_classified_witness:
  "br_bottlenecks_found (BottleneckAnalyzer_analyze example_factory None None 60 True) = 3
   \<and> map row_type (br_bottlenecks (BottleneckAnalyzer_analyze example_factory None None 60 True)) =
       [''output_blocked'', ''input_starvation'', ''input_starvation'']
   \<and> (\<exists>b. finding_of (mk_AssemblerMetrics 3 7 20 100 False True) (new_PlanetState 1) None = Some b
          \<and> bottleneck_type b = ''output_blocked'')"
proof -
  let ?a = "mk_AssemblerMetrics 3 7 20 100 False True"
  note t = bottleneck_findings_classified
             [of example_factory None None 60 True _ ?a "new_PlanetState 1"]
  from t have "br_bottlenecks_found (BottleneckAnalyzer_analyze example_factory None None 60 True) =
       length (all_findings example_factory None None)"
    by blast
  then have n: "br_bottlenecks_found (BottleneckAnalyzer_analyze example_factory None None 60 True) = 3"
    by (simp add: example_findings)
  from t have "br_bottlenecks (BottleneckAnalyzer_analyze example_factory None None 60 True) =
       map bottleneck_to_row (take 10 (sort_reverse severity (all_findings example_factory None None)))"
    by blast
  then have r: "map row_type (br_bottlenecks (BottleneckAnalyzer_analyze example_factory None None 60 True)) =
       [''output_blocked'', ''input_starvation'', ''input_starvation'']"
    by (simp add: example_findings sort_reverse_def analyze_assembler_def mk_AssemblerMetrics_def
        bottleneck_to_row_def)
  have "efficiency ?a < 90 \<and> (input_starved ?a \<or> output_blocked ?a)"
    by (simp add: mk_AssemblerMetrics_def)
  with t have "finding_of ?a (new_PlanetState 1) None \<noteq> None"
    by blast
  then obtain b where b: "finding_of ?a (new_PlanetState 1) None = Some b"
    by blast
  with t have "bottleneck_type b = (if input_starved ?a then ''input_starvation'' else ''output_blocked'')"
    by blast
  then have "bottleneck_type b = ''output_blocked''"
    by (simp add: mk_AssemblerMetrics_def)
  with b n r show ?thesis by blast
qed




text \<open>
  C6. Of the belts of the selected planets that pass the item filter, the list of
  saturated belts holds, in order, one entry for each belt whose saturation is at least
  the threshold, and the list of nearly saturated belts one entry for each belt whose
  saturation is at least the threshold minus 10 and below the threshold; the other belts
  give no entry. The report shows the first 20 and the first 10 of the two lists, sorted.
  No belt meets both conditions, and no entry is in both lists of a report.
\<close>

theorem logistics_classification:
  "fst (classify_belts fs pidf f thr) =
     map (\<lambda>(p, belt). saturated_row p belt)
         (filter (\<lambda>(p, belt). saturation_percent belt \<ge> thr) (selected_belts fs pidf f))
   \<and> snd (classify_belts fs pidf f thr) =
     map (\<lambda>(p, belt). near_row p belt)
         (filter (\<lambda>(p, belt). thr - 10 \<le> saturation_percent belt \<and> saturation_percent belt < thr)
                 (selected_belts fs pidf f))
   \<and> lg_saturated_belts (LogisticsAnalyzer_analyze fs pidf f thr) =
       take 20 (sort_reverse bd_saturation (fst (classify_belts fs pidf f thr)))
   \<and> lg_near_saturation (LogisticsAnalyzer_analyze fs pidf f thr) =
       take 10 (sort_reverse bd_saturation (snd (classify_belts fs pidf f thr)))
   \<and> \<not> (saturation_percent belt \<ge> thr
        \<and> thr - 10 \<le> saturation_percent belt \<and> saturation_percent belt < thr)
   \<and> set (fst (classify_belts fs pidf f thr)) \<inter> set (snd (classify_belts fs pidf f thr)) = {}
   \<and> set (lg_saturated_belts (LogisticsAnalyzer_analyze fs pidf f thr))
       \<inter> set (lg_near_saturation (LogisticsAnalyzer_analyze fs pidf f thr)) = {}"
proof -
  let ?sat = "fst (classify_belts fs pidf f thr)"
  let ?near = "snd (classify_belts fs pidf f thr)"
  let ?r = "LogisticsAnalyzer_analyze fs pidf f thr"
  have 1: "?sat = map (\<lambda>(p, belt). saturated_row p belt)
         (filter (\<lambda>(p, belt). saturation_percent belt \<ge> thr) (selected_belts fs pidf f))"
    by (simp add: classify_belts_eq is_saturated_def)
  have 2: "?near = map (\<lambda>(p, belt). near_row p belt)
         (filter (\<lambda>(p, belt). thr - 10 \<le> saturation_percent belt \<and> saturation_percent belt < thr)
                 (selected_belts fs pidf f))"
    by (simp add: classify_belts_eq is_near_def)
  have 3: "lg_saturated_belts ?r = take 20 (sort_reverse bd_saturation ?sat)"
    and 4: "lg_near_saturation ?r = take 10 (sort_reverse bd_saturation ?near)"
    by (rule logistics_lists)+
  have 5: "\<not> (saturation_percent belt \<ge> thr
        \<and> thr - 10 \<le> saturation_percent belt \<and> saturation_percent belt < thr)"
    by arith
  have 6: "set ?sat \<inter> set ?near = {}"
  proof (rule ccontr)
    assume "set ?sat \<inter> set ?near \<noteq> {}"
    then obtain row where a: "row \<in> set ?sat" and b: "row \<in> set ?near" by blast
    from classify_belts_status(1) [OF a] classify_belts_status(2) [OF b]
    show False by simp
  qed
  have "set (lg_saturated_belts ?r) \<subseteq> set ?sat"
    unfolding 3 using set_take_subset [of 20 "sort_reverse bd_saturation ?sat"]
    by (simp add: set_sort_reverse)
  moreover have "set (lg_near_saturation ?r) \<subseteq> set ?near"
    unfolding 4 using set_take_subset [of 10 "sort_reverse bd_saturation ?near"]
    by (simp add: set_sort_reverse)
  ultimately have 7: "set (lg_saturated_belts ?r) \<inter> set (lg_near_saturation ?r) = {}"
    using 6 by blast
  from 1 2 3 4 5 6 7 show ?thesis by blast
qed

text \<open>
  The theorem of C6 on three belts at 96.7%, 90% and 50% of their maximum, with the
  threshold 95: the first is saturated, the second nearly saturated, the third omitted.
\<close>

theorem logistics_classification_witness:
  "map bd_belt_id (fst (classify_belts belt_factory None None 95)) = [1]
   \<and> map bd_belt_id (snd (classify_belts belt_factory None None 95)) = [2]"
proof -
  have sel: "selected_belts belt_factory None None =
     [(1, mk_BeltMetrics 1 ''iron'' 29 30), (1, mk_BeltMetrics 2 ''copper'' 27 30),
      (1, mk_BeltMetrics 3 ''iron'' 6 12)]"
    by (simp add: selected_belts_def selected_planets_def belt_factory_def skipped_def
        filtered_out_def new_PlanetState_def)
  from logistics_classification [of belt_factory None None 95]
  have "fst (classify_belts belt_factory None None 95) =
     map (\<lambda>(p, belt). saturated_row p belt)
         (filter (\<lambda>(p, belt). saturation_percent belt \<ge> 95) (selected_belts belt_factory None None))"
    and "snd (classify_belts belt_factory None None 95) =
     map (\<lambda>(p, belt). near_row p belt)
         (filter (\<lambda>(p, belt). 95 - 10 \<le> saturation_percent belt \<and> saturation_percent belt < 95)
                 (selected_belts belt_factory None None))"
    by blast+
  then show ?thesis
    by (simp add: sel mk_BeltMetrics_def saturated_row_def near_row_def belt_data_def)
qed

text \<open>
  C7. The report has one row for each selected planet with power data. A planet whose
  surplus is negative is marked \<open>deficit\<close> and gets the recommendation of its tier: a
  deficit under 10 MW the thermal-plant message, a deficit from 10 MW and under 50 MW a
  number of fusion plants equal to the floor of the deficit over 15, plus 1, and a
  deficit of 50 MW or more the message about an artificial sun or ray receivers. With
  100 MW generated and 120 MW consumed the planet is marked \<open>deficit\<close> and 2 fusion
  plants are recommended.
\<close>

theorem power_deficit_recommendation:
  "pw_planets (PowerAnalyzer_analyze fs pidf incl) =
     map (\<lambda>(p, planet, pw). power_planet_data p planet pw incl) (powered_planets fs pidf)
   \<and> (surplus_mw pw < 0 \<longrightarrow>
        pr_status (power_planet_data p planet pw incl) = ''deficit''
        \<and> pr_recommendation (power_planet_data p planet pw incl) =
            Some (generate_recommendation pw))
   \<and> (surplus_mw pw < 0 \<and> - surplus_mw pw < 10 \<longrightarrow>
        generate_recommendation pw =
          [Lit ''Minor deficit of '', F1 (- surplus_mw pw), Lit ''MW - add 1 thermal plant''])
   \<and> (10 \<le> - surplus_mw pw \<and> - surplus_mw pw < 50 \<longrightarrow>
        generate_recommendation pw =
          [Lit ''Deficit of '', F1 (- surplus_mw pw), Lit ''MW - add '',
           D (\<lfloor>- surplus_mw pw / 15\<rfloor> + 1), Lit '' fusion plants''])
   \<and> (50 \<le> - surplus_mw pw \<longrightarrow>
        generate_recommendation pw =
          [Lit ''Major deficit of '', F1 (- surplus_mw pw),
           Lit ''MW - consider artificial sun or ray receivers''])
   \<and> pr_status (power_planet_data p planet (mk_PowerMetrics 100 120 acc) incl) = ''deficit''
   \<and> pr_recommendation (power_planet_data p planet (mk_PowerMetrics 100 120 acc) incl) =
       Some [Lit ''Deficit of '', F1 20, Lit ''MW - add '', D 2, Lit '' fusion plants'']"
proof -
  have 1: "pw_planets (PowerAnalyzer_analyze fs pidf incl) =
     map (\<lambda>(p, planet, pw). power_planet_data p planet pw incl) (powered_planets fs pidf)"
    by (rule power_rows_eq)
  have 2: "surplus_mw pw < 0 \<longrightarrow>
        pr_status (power_planet_data p planet pw incl) = ''deficit''
        \<and> pr_recommendation (power_planet_data p planet pw incl) =
            Some (generate_recommendation pw)"
    by (simp add: power_planet_data_def)
  have 3: "surplus_mw pw < 0 \<and> - surplus_mw pw < 10 \<longrightarrow>
        generate_recommendation pw =
          [Lit ''Minor deficit of '', F1 (- surplus_mw pw), Lit ''MW - add 1 thermal plant'']"
    using generate_recommendation_tiers(1) [of pw] by auto
  have 4: "10 \<le> - surplus_mw pw \<and> - surplus_mw pw < 50 \<longrightarrow>
        generate_recommendation pw =
          [Lit ''Deficit of '', F1 (- surplus_mw pw), Lit ''MW - add '',
           D (\<lfloor>- surplus_mw pw / 15\<rfloor> + 1), Lit '' fusion plants'']"
    using generate_recommendation_tiers(2) [of pw] by auto
  have 5: "50 \<le> - surplus_mw pw \<longrightarrow>
        generate_recommendation pw =
          [Lit ''Major deficit of '', F1 (- surplus_mw pw),
           Lit ''MW - consider artificial sun or ray receivers'']"
    using generate_recommendation_tiers(3) [of pw] by auto
  have 6: "pr_status (power_planet_data p planet (mk_PowerMetrics 100 120 acc) incl) = ''deficit''"
    and 7: "pr_recommendation (power_planet_data p planet (mk_PowerMetrics 100 120 acc) incl) =
       Some [Lit ''Deficit of '', F1 20, Lit ''MW - add '', D 2, Lit '' fusion plants'']"
    by (simp_all add: power_planet_data_def mk_PowerMetrics_def generate_recommendation_def
        int_of_float_def)
  from 1 2 3 4 5 6 7 show ?thesis by blast
qed

text \<open>
  The theorem on planets with deficits of 4 MW, 20 MW and 75 MW, and on the report for
  the factory of the scenario.
\<close>

theorem power_deficit_recommendation_witness:
  "generate_recommendation (mk_PowerMetrics 100 104 0) =
     [Lit ''Minor deficit of '', F1 4, Lit ''MW - add 1 thermal plant'']
   \<and> generate_recommendation (mk_PowerMetrics 100 120 0) =
     [Lit ''Deficit of '', F1 20, Lit ''MW - add '', D 2, Lit '' fusion plants'']
   \<and> generate_recommendation (mk_PowerMetrics 100 175 0) =
     [Lit ''Major deficit of '', F1 75, Lit ''MW - consider artificial sun or ray receivers'']
   \<and> map pr_status (pw_planets (PowerAnalyzer_analyze deficit_factory None True)) = [''deficit'']
   \<and> map pr_recommendation (pw_planets (PowerAnalyzer_analyze deficit_factory None True)) =
       [Some [Lit ''Deficit of '', F1 20, Lit ''MW - add '', D 2, Lit '' fusion plants'']]"
proof -
  have s: "surplus_mw (mk_PowerMetrics 100 104 0) = - 4"
    "surplus_mw (mk_PowerMetrics 100 120 0) = - 20"
    "surplus_mw (mk_PowerMetrics 100 175 0) = - 75"
    by (simp_all add: mk_PowerMetrics_def)
  have a: "generate_recommendation (mk_PowerMetrics 100 104 0) =
     [Lit ''Minor deficit of '', F1 4, Lit ''MW - add 1 thermal plant'']"
    using power_deficit_recommendation [of deficit_factory None True "mk_PowerMetrics 100 104 0"]
    by (simp add: s)
  have b: "generate_recommendation (mk_PowerMetrics 100 120 0) =
     [Lit ''Deficit of '', F1 20, Lit ''MW - add '', D 2, Lit '' fusion plants'']"
    using power_deficit_recommendation [of deficit_factory None True "mk_PowerMetrics 100 120 0"]
    by (simp add: s)
  have c: "generate_recommendation (mk_PowerMetrics 100 175 0) =
     [Lit ''Major deficit of '', F1 75, Lit ''MW - consider artificial sun or ray receivers'']"
    using power_deficit_recommendation [of deficit_factory None True "mk_PowerMetrics 100 175 0"]
    by (simp add: s)
  have pp: "powered_planets deficit_factory None =
     [(1, (new_PlanetState 1)\<lparr>power := Some (mk_PowerMetrics 100 120 0)\<rparr>,
       mk_PowerMetrics 100 120 0)]"
    by (simp add: powered_planets_def selected_planets_def deficit_factory_def skipped_def
        new_PlanetState_def)
  have d: "map pr_status (pw_planets (PowerAnalyzer_analyze deficit_factory None True)) =
       [''deficit'']"
    and e: "map pr_recommendation (pw_planets (PowerAnalyzer_analyze deficit_factory None True)) =
       [Some [Lit ''Deficit of '', F1 20, Lit ''MW - add '', D 2, Lit '' fusion plants'']]"
    using power_deficit_recommendation
            [of deficit_factory None True "mk_PowerMetrics 100 120 0" 1
               "(new_PlanetState 1)\<lparr>power := Some (mk_PowerMetrics 100 120 0)\<rparr>" 0]
    by (simp_all add: pp)
  from a b c d e show ?thesis by blast
qed

text \<open>
  C8. When the client is not connected and the connection attempt is refused,
  \<open>get_current_state\<close> raises \<open>ConnectionError\<close> after that one attempt: the trace
  holds one connection attempt and no sleep, whatever a later attempt would have given.
\<close>

theorem get_current_state_connect_fails:
  "\<not> is_connected s \<and> outcomes 0 = Refused msg \<longrightarrow>
     get_current_state outcomes during_sleep s =
       (Inl (ConnectionError ''Cannot connect to game''), s\<lparr>connected := False\<rparr>,
        [Connect_attempt])"
  by (simp add: get_current_state_def connect_def)

text \<open>
  The theorem on a new client, with a network that refuses the first attempt and would
  accept a second one.
\<close>

theorem get_current_state_connect_fails_witness:
  "get_current_state refuse_first (\<lambda>k. []) (new_RealTimeStream ''localhost'' 8470) =
     (Inl (ConnectionError ''Cannot connect to game''),
      (new_RealTimeStream ''localhost'' 8470)\<lparr>connected := False\<rparr>,
      [Connect_attempt])"
proof -
  have a: "\<not> is_connected (new_RealTimeStream ''localhost'' 8470)"
    by (simp add: is_connected_def new_RealTimeStream_def)
  have b: "refuse_first 0 = Refused ''connection refused''"
    by (simp add: refuse_first_def)
  from get_current_state_connect_fails
         [of "new_RealTimeStream ''localhost'' 8470" refuse_first "''connection refused''"
             "\<lambda>k. []"] a b
  show ?thesis by blast
qed

text \<open>
  C9. An empty item filter is the same as no filter: the two reports are equal.
\<close>

theorem logistics_empty_filter:
  "LogisticsAnalyzer_analyze fs pidf (Some []) thr = LogisticsAnalyzer_analyze fs pidf None thr"
  by (simp add: LogisticsAnalyzer_analyze_def classify_belts_def
      logistics_planets_loop_empty_filter)

text \<open>The theorem of C9 on the same belts: one saturated belt with either filter.\<close>

theorem logistics_empty_filter_witness:
  "saturated_count (lg_summary (LogisticsAnalyzer_analyze belt_factory None (Some []) 95)) = 1"
proof -
  have "saturated_count (lg_summary (LogisticsAnalyzer_analyze belt_factory None None 95)) = 1"
    by (simp add: logistics_eval belt_factory_def)
  with logistics_empty_filter [of belt_factory None 95] show ?thesis
    by simp
qed

text \<open>
  C10. An analysis type other than \<open>production\<close>, \<open>power\<close> and \<open>logistics\<close> is
  handled as \<open>full\<close>: on a save that parses the call returns the three reports of the
  three analyzers, and the only error values are those of a save that does not parse.
\<close>

theorem load_save_analysis_unknown_type:
  "analysis_type \<notin> {''production'', ''power'', ''logistics''} \<longrightarrow>
     load_save_analysis env path analysis_type = load_save_analysis env path ''full''
   \<and> (\<forall>fs. parse_file env path = Inr fs \<longrightarrow>
         load_save_analysis env path analysis_type =
           Full_report (BottleneckAnalyzer_analyze fs None None 60 True)
                       (PowerAnalyzer_analyze fs None True)
                       (LogisticsAnalyzer_analyze fs None None 95))
   \<and> (\<forall>e. parse_file env path = Inl e \<longrightarrow>
         load_save_analysis env path analysis_type = on_exception e)"
  by (simp add: load_save_analysis_def load_save_analysis_with_full)

text \<open>
  The theorem on the misspelt type \<open>prodution\<close>, for a save that parses and for a
  path that does not exist.
\<close>

theorem load_save_analysis_unknown_type_witness:
  "load_save_analysis dsv_env ''save.dsv'' ''prodution'' =
     Full_report (BottleneckAnalyzer_analyze (from_save_data 0) None None 60 True)
                 (PowerAnalyzer_analyze (from_save_data 0) None True)
                 (LogisticsAnalyzer_analyze (from_save_data 0) None None 95)
   \<and> load_save_analysis no_file_env ''save.dsv'' ''prodution'' =
       Error_result ''file_not_found'' ''Save file not found: save.dsv''"
proof -
  have t: "''prodution'' \<notin> {''production'', ''power'', ''logistics''}"
    by simp
  from load_save_analysis_unknown_type [of "''prodution''" dsv_env "''save.dsv''"] t
       parse_file_dsv_env [of "''save.dsv''"]
  have a: "load_save_analysis dsv_env ''save.dsv'' ''prodution'' =
     Full_report (BottleneckAnalyzer_analyze (from_save_data 0) None None 60 True)
                 (PowerAnalyzer_analyze (from_save_data 0) None True)
                 (LogisticsAnalyzer_analyze (from_save_data 0) None None 95)"
    by blast
  have "parse_file no_file_env ''save.dsv'' =
          Inl (FileNotFoundError ''Save file not found: save.dsv'')"
    by (simp add: parse_file_def no_file_env_def)
  with load_save_analysis_unknown_type [of "''prodution''" no_file_env "''save.dsv''"] t
  have "load_save_analysis no_file_env ''save.dsv'' ''prodution'' =
          on_exception (FileNotFoundError ''Save file not found: save.dsv'')"
    by blast
  then have b: "load_save_analysis no_file_env ''save.dsv'' ''prodution'' =
       Error_result ''file_not_found'' ''Save file not found: save.dsv''"
    by (simp add: on_exception_def)
  from a b show ?thesis by blast
qed

text \<open>
  C3, as amended. With \<open>G\<close> and \<open>C\<close> the generation and the consumption accumulated
  over the selected planets, in doubles, the summary holds \<open>round(G, 2)\<close>,
  \<open>round(C, 2)\<close> and \<open>round(G - C, 2)\<close>: three values rounded separately. So
  \<open>net_surplus_mw\<close> is within \<open>0.015 + (|G| + |C| + 2) / 2 ^ 51\<close> of
  \<open>total_generation_mw - total_consumption_mw\<close>, and not closer in general. When every
  power value is a whole number of MW and the magnitudes add up to at most \<open>2 ^ 53\<close>,
  nothing is rounded: the totals are the exact sums and \<open>net_surplus_mw\<close> is exactly
  \<open>total_generation_mw - total_consumption_mw\<close>.
\<close>

theorem power_summary_net_surplus:
  "total_generation_mw (pw_summary (PowerAnalyzer_analyze fs pidf incl)) =
     py_round (sum_generation fs pidf) 2
   \<and> total_consumption_mw (pw_summary (PowerAnalyzer_analyze fs pidf incl)) =
       py_round (sum_consumption fs pidf) 2
   \<and> net_surplus_mw (pw_summary (PowerAnalyzer_analyze fs pidf incl)) =
       py_round (fl (sum_generation fs pidf - sum_consumption fs pidf)) 2
   \<and> \<bar>net_surplus_mw (pw_summary (PowerAnalyzer_analyze fs pidf incl))
       - (total_generation_mw (pw_summary (PowerAnalyzer_analyze fs pidf incl))
          - total_consumption_mw (pw_summary (PowerAnalyzer_analyze fs pidf incl)))\<bar>
       \<le> 3 / 200 + (\<bar>sum_generation fs pidf\<bar> + \<bar>sum_consumption fs pidf\<bar> + 2) / 2 ^ 51
   \<and> (whole_megawatts fs pidf \<longrightarrow>
         total_generation_mw (pw_summary (PowerAnalyzer_analyze fs pidf incl)) =
           sum_list (map (\<lambda>(pid, planet, pw). generation_mw pw) (powered_planets fs pidf))
         \<and> total_consumption_mw (pw_summary (PowerAnalyzer_analyze fs pidf incl)) =
           sum_list (map (\<lambda>(pid, planet, pw). consumption_mw pw) (powered_planets fs pidf))
         \<and> net_surplus_mw (pw_summary (PowerAnalyzer_analyze fs pidf incl)) =
           total_generation_mw (pw_summary (PowerAnalyzer_analyze fs pidf incl))
           - total_consumption_mw (pw_summary (PowerAnalyzer_analyze fs pidf incl)))"
proof -
  let ?S = "pw_summary (PowerAnalyzer_analyze fs pidf incl)"
  let ?G = "sum_generation fs pidf" and ?C = "sum_consumption fs pidf"
  have 1: "total_generation_mw ?S = py_round ?G 2"
    and 2: "total_consumption_mw ?S = py_round ?C 2"
    and 3: "net_surplus_mw ?S = py_round (fl (?G - ?C)) 2"
    by (simp_all add: power_summary_eq)
  have 4: "\<bar>net_surplus_mw ?S - (total_generation_mw ?S - total_consumption_mw ?S)\<bar>
       \<le> 3 / 200 + (\<bar>?G\<bar> + \<bar>?C\<bar> + 2) / 2 ^ 51"
    unfolding 1 2 3 by (rule rounded_difference_near)
  have 5: "total_generation_mw ?S =
           sum_list (map (\<lambda>(pid, planet, pw). generation_mw pw) (powered_planets fs pidf))
         \<and> total_consumption_mw ?S =
           sum_list (map (\<lambda>(pid, planet, pw). consumption_mw pw) (powered_planets fs pidf))
         \<and> net_surplus_mw ?S = total_generation_mw ?S - total_consumption_mw ?S"
    if w: "whole_megawatts fs pidf"
    using whole_megawatts_exact [OF w] by (simp add: 1 2 3)
  from 1 2 3 4 5 show ?thesis by blast
qed

text \<open>
  The theorem on the factory of the scenario, whose values are whole numbers: the
  summary holds 100, 120 and -20, and -20 is 100 - 120.
\<close>

theorem power_summary_net_surplus_witness:
  "whole_megawatts deficit_factory None
   \<and> total_generation_mw (pw_summary (PowerAnalyzer_analyze deficit_factory None True)) = 100
   \<and> total_consumption_mw (pw_summary (PowerAnalyzer_analyze deficit_factory None True)) = 120
   \<and> net_surplus_mw (pw_summary (PowerAnalyzer_analyze deficit_factory None True)) = - 20"
proof -
  have pp: "powered_planets deficit_factory None =
     [(1, (new_PlanetState 1)\<lparr>power := Some (mk_PowerMetrics 100 120 0)\<rparr>,
       mk_PowerMetrics 100 120 0)]"
    by (simp add: powered_planets_def selected_planets_def deficit_factory_def skipped_def
        new_PlanetState_def)
  have w: "whole_megawatts deficit_factory None"
    by (simp add: whole_megawatts_def pp mk_PowerMetrics_def)
  with power_summary_net_surplus [of deficit_factory None True]
  have "total_generation_mw (pw_summary (PowerAnalyzer_analyze deficit_factory None True)) =
           sum_list (map (\<lambda>(pid, planet, pw). generation_mw pw) (powered_planets deficit_factory None))
         \<and> total_consumption_mw (pw_summary (PowerAnalyzer_analyze deficit_factory None True)) =
           sum_list (map (\<lambda>(pid, planet, pw). consumption_mw pw) (powered_planets deficit_factory None))
         \<and> net_surplus_mw (pw_summary (PowerAnalyzer_analyze deficit_factory None True)) =
           total_generation_mw (pw_summary (PowerAnalyzer_analyze deficit_factory None True))
           - total_consumption_mw (pw_summary (PowerAnalyzer_analyze deficit_factory None True))"
    by blast
  with w show ?thesis by (simp add: pp mk_PowerMetrics_def)
qed

text \<open>
  C3 as stated fails: with one planet generating 0.0078125 MW and consuming
  0.0146484375 MW the report shows a generation of 0.01, a consumption of 0.01 and a net
  surplus of -0.01 (each the double nearest to it), and -0.01 is 0.01 away from the
  difference of the two shown totals, which is 0.
\<close>

theorem power_net_surplus_counterexample:
  "total_generation_mw (pw_summary (PowerAnalyzer_analyze milliwatt_factory None True)) =
     5764607523034235 / 576460752303423488
   \<and> total_consumption_mw (pw_summary (PowerAnalyzer_analyze milliwatt_factory None True)) =
     5764607523034235 / 576460752303423488
   \<and> net_surplus_mw (pw_summary (PowerAnalyzer_analyze milliwatt_factory None True)) =
     - (5764607523034235 / 576460752303423488)
   \<and> 1 / 1000000 <
       \<bar>net_surplus_mw (pw_summary (PowerAnalyzer_analyze milliwatt_factory None True))
        - (total_generation_mw (pw_summary (PowerAnalyzer_analyze milliwatt_factory None True))
           - total_consumption_mw (pw_summary (PowerAnalyzer_analyze milliwatt_factory None True)))\<bar>"
proof -
  have pp: "powered_planets milliwatt_factory None =
     [(1, (new_PlanetState 1)\<lparr>power := Some (mk_PowerMetrics (1 / 128) (15 / 1024) 0)\<rparr>,
       mk_PowerMetrics (1 / 128) (15 / 1024) 0)]"
    by (simp add: powered_planets_def selected_planets_def milliwatt_factory_def skipped_def
        new_PlanetState_def)
  have g: "sum_generation milliwatt_factory None = 1 / 128"
    and c: "sum_consumption milliwatt_factory None = 15 / 1024"
    by (simp_all add: sum_generation_def sum_consumption_def pp mk_PowerMetrics_def
        milliwatt_sums)
  show ?thesis
    by (simp add: power_summary_eq g c milliwatt_rounds)
qed

end
